theory Spec2Isabelle
  imports Complex_Main "HOL-Library.Sublist"
begin

section \<open>Strings of the platform\<close>

text \<open>
  The program's own literals, and the ids, paths and file contents it handles, are
  strings of 8-bit characters (\<^typ>\<open>string\<close>). The texts that reach the program from outside
  (file names, tags, queries, playlist names, the text answers of the external services)
  are lists of UTF-16 code units, written as numbers: \<open>ustr\<close> turns a literal into such a
  list. The string methods the handlers of \<^verbatim>\<open>index.js\<close> call (\<^verbatim>\<open>toLowerCase\<close>,
  \<^verbatim>\<open>includes\<close>, \<^verbatim>\<open>trim\<close>, \<^verbatim>\<open>replace\<close> with a string pattern) are written out below.
\<close>

type_synonym ustring = "nat list"

definition ustr :: "string \<Rightarrow> ustring" where
  "ustr s = map of_char s"

text \<open>
  \<^verbatim>\<open>toLowerCase\<close> is the Unicode default case conversion. It is written out for Basic
  Latin, the Latin-1 Supplement and the Greek letters U+0391 to U+03C9; code units
  beyond these are outside the model (they are left as they are here). Every capital
  letter of these blocks has its small letter 32 places further, and one mapping depends
  on the context: the capital sigma (931) becomes the final small sigma (962) when a
  cased letter precedes it and none follows it, case-ignorable code units being skipped
  on both sides, and the small sigma (963) otherwise.
\<close>

definition toLowerCase_unit :: "nat \<Rightarrow> nat" where
  "toLowerCase_unit u =
     (if (65 \<le> u \<and> u \<le> 90) \<or> (192 \<le> u \<and> u \<le> 222 \<and> u \<noteq> 215) \<or>
         (913 \<le> u \<and> u \<le> 937 \<and> u \<noteq> 930)
      then u + 32 else u)"

definition cased :: "nat \<Rightarrow> bool" where
  "cased u =
     ((65 \<le> u \<and> u \<le> 90) \<or> (97 \<le> u \<and> u \<le> 122) \<or> u = 170 \<or> u = 181 \<or> u = 186 \<or>
      (192 \<le> u \<and> u \<le> 214) \<or> (216 \<le> u \<and> u \<le> 246) \<or> (248 \<le> u \<and> u \<le> 255) \<or>
      (913 \<le> u \<and> u \<le> 929) \<or> (931 \<le> u \<and> u \<le> 937) \<or> (945 \<le> u \<and> u \<le> 969))"

definition case_ignorable :: "nat \<Rightarrow> bool" where
  "case_ignorable u = (u \<in> {39, 46, 58, 94, 96, 168, 173, 175, 180, 183, 184})"

text \<open>The nearest code unit that is not case-ignorable exists and is a cased letter.\<close>

definition next_is_cased :: "ustring \<Rightarrow> bool" where
  "next_is_cased us = (case dropWhile case_ignorable us of [] \<Rightarrow> False | c # _ \<Rightarrow> cased c)"

text \<open>\<open>seen\<close> holds the code units that precede the sigma, the nearest one first.\<close>

definition final_sigma :: "ustring \<Rightarrow> ustring \<Rightarrow> bool" where
  "final_sigma seen rest = (next_is_cased seen \<and> \<not> next_is_cased rest)"

fun lower_from :: "ustring \<Rightarrow> ustring \<Rightarrow> ustring" where
  "lower_from seen [] = []"
| "lower_from seen (u # rest) =
     (if u = 931 \<and> final_sigma seen rest then 962 else toLowerCase_unit u)
       # lower_from (u # seen) rest"

definition toLowerCase :: "ustring \<Rightarrow> ustring" where
  "toLowerCase s = lower_from [] s"

definition startsWith :: "'a list \<Rightarrow> 'a list \<Rightarrow> bool" where
  "startsWith s q = (take (length q) s = q)"

text \<open>\<^verbatim>\<open>s.includes(q)\<close>: \<open>q\<close> occurs in \<open>s\<close> at some position, scanned from the left.\<close>

fun includes_str :: "'a list \<Rightarrow> 'a list \<Rightarrow> bool" where
  "includes_str [] q = (q = [])"
| "includes_str (c # cs) q = (startsWith (c # cs) q \<or> includes_str cs q)"

text \<open>\<^verbatim>\<open>s.indexOf(q)\<close>, with \<open>None\<close> for the result \<open>-1\<close>.\<close>

fun indexOf :: "'a list \<Rightarrow> 'a list \<Rightarrow> nat option" where
  "indexOf [] q = (if q = [] then Some 0 else None)"
| "indexOf (c # cs) q =
     (if startsWith (c # cs) q then Some 0 else map_option Suc (indexOf cs q))"

text \<open>
  \<^verbatim>\<open>s.replace(pat, rep)\<close> with a string pattern: only the first occurrence is replaced
  (the replacement used by the source is the empty string, which holds no \<^verbatim>\<open>$\<close> pattern).
\<close>

definition replace_str :: "'a list \<Rightarrow> 'a list \<Rightarrow> 'a list \<Rightarrow> 'a list" where
  "replace_str s pat rep =
     (case indexOf s pat of
        None \<Rightarrow> s
      | Some i \<Rightarrow> take i s @ rep @ drop (i + length pat) s)"

text \<open>\<^verbatim>\<open>trim\<close> is applied to file contents only.\<close>

definition is_white :: "char \<Rightarrow> bool" where
  "is_white c = (of_char c \<in> {9, 10, 11, 12, 13, 32, 160 :: nat})"

definition trim :: "string \<Rightarrow> string" where
  "trim s = rev (dropWhile is_white (rev (dropWhile is_white s)))"

text \<open>The operator \<^verbatim>\<open>a || b\<close> on an optional string: absent and empty are both falsy.\<close>

definition or_else :: "'a list option \<Rightarrow> 'a list \<Rightarrow> 'a list" where
  "or_else a b = (case a of None \<Rightarrow> b | Some s \<Rightarrow> if s = [] then b else s)"

definition falsy :: "'a list option \<Rightarrow> bool" where
  "falsy a = (case a of None \<Rightarrow> True | Some s \<Rightarrow> s = [])"

text \<open>The value of an optional string when it is truthy.\<close>

definition truthy :: "'a list option \<Rightarrow> 'a list option" where
  "truthy a = (if falsy a then None else a)"

section \<open>Records of the catalog\<close>

record song =
  song_id :: string
  title :: ustring
  artist :: ustring
  album :: ustring
  genre :: "ustring option"
  duration :: real
  albumArt :: "string option"
  lyrics :: "ustring option"
  driveFileId :: "string option"
  createdAt :: string

record playlist =
  playlist_id :: string
  name :: ustring
  songs :: "song list"

section \<open>State, files and the Catalog Store\<close>

datatype event =
    ConsoleError string
  | ConsoleErrorAbout string ustring
  | GetDriveClient
  | ParseFile string
  | FilesCreate string
  | PermissionsCreate string
  | FilesGet string
  | Unlink string
  | MbSearch ustring
  | MbLookup string
  | LrcGetUnsynced ustring ustring

record remote_object =
  object_id :: string
  object_name :: string
  mimeType :: string
  body :: "string option"
  anyone_reader :: bool

text \<open>
  The state a handler runs in: the files on disk (path to content), the objects in
  remote storage, and the sequence of calls to the outside and of \<^verbatim>\<open>console.error\<close>
  lines made so far (\<open>ConsoleErrorAbout\<close> is such a line that ends with a text from
  outside).
\<close>

record state =
  files :: "string \<rightharpoonup> string"
  drive :: "remote_object list"
  trace :: "event list"

definition emit :: "event \<Rightarrow> state \<Rightarrow> state" where
  "emit e st = st\<lparr>trace := trace st @ [e]\<rparr>"

definition writeFileSync :: "string \<Rightarrow> string \<Rightarrow> state \<Rightarrow> state" where
  "writeFileSync file data st = st\<lparr>files := (files st)(file \<mapsto> data)\<rparr>"

text \<open>
  \<^verbatim>\<open>JSON.parse\<close> and \<^verbatim>\<open>JSON.stringify(data, null, 2)\<close> belong to the platform, not to the
  repository: they are parameters of the store. \<open>JSON_parse\<close> gives \<open>None\<close> where
  \<^verbatim>\<open>JSON.parse\<close> throws. The backing files are taken to hold arrays of records of the
  shape of the collection; a text that parses to any other value is outside the model.
\<close>

record 'a json_api =
  JSON_parse :: "string \<Rightarrow> 'a list option"
  JSON_stringify :: "'a list \<Rightarrow> string"

definition SONGS_FILE :: string where
  "SONGS_FILE = ''songs.json''"

definition PLAYLISTS_FILE :: string where
  "PLAYLISTS_FILE = ''playlists.json''"

definition UPLOAD_DIR :: string where
  "UPLOAD_DIR = ''temp_uploads''"

definition readJSON :: "(string \<Rightarrow> 'a list option) \<Rightarrow> string \<Rightarrow> state \<Rightarrow> 'a list \<times> state" where
  "readJSON parse_text file st =
     (case files st file of
        None \<Rightarrow> ([], writeFileSync file ''[]'' st)
      | Some raw \<Rightarrow>
          (let content = trim raw
           in if content = [] then ([], writeFileSync file ''[]'' st)
              else (case parse_text content of
                      Some data \<Rightarrow> (data, st)
                    | None \<Rightarrow>
                        ([], writeFileSync file ''[]''
                               (emit (ConsoleError (''Invalid JSON in '' @ file @ '', resetting...'')) st)))))"

definition writeJSON :: "('a list \<Rightarrow> string) \<Rightarrow> string \<Rightarrow> 'a list \<Rightarrow> state \<Rightarrow> state" where
  "writeJSON to_text file data st = writeFileSync file (to_text data) st"

section \<open>Responses\<close>

datatype payload =
    Error string
  | SongJ song
  | SongsJ "song list"
  | PlaylistJ playlist
  | PlaylistsJ "playlist list"
  | Audio string

datatype response = Response nat payload

section \<open>Catalog API: listing and search\<close>

definition get_songs :: "song json_api \<Rightarrow> state \<Rightarrow> response \<times> state" where
  "get_songs J st =
     (let (all_songs, st1) = readJSON (JSON_parse J) SONGS_FILE st
      in (Response 200 (SongsJ all_songs), st1))"

text \<open>The arrow function handed to \<^verbatim>\<open>songs.filter\<close> by the search handler.\<close>

definition search_match :: "ustring \<Rightarrow> song \<Rightarrow> bool" where
  "search_match q s =
     (includes_str (toLowerCase (title s)) q \<or> includes_str (toLowerCase (artist s)) q)"

definition search :: "song json_api \<Rightarrow> ustring option \<Rightarrow> state \<Rightarrow> response \<times> state" where
  "search J query_q st =
     (let q = toLowerCase (or_else query_q []);
          (all_songs, st1) = readJSON (JSON_parse J) SONGS_FILE st;
          results = filter (search_match q) all_songs
      in (Response 200 (SongsJ results), st1))"

section \<open>Streaming proxy\<close>

text \<open>
  What the outside answers during one stream request: whether \<^verbatim>\<open>getDriveClient\<close>
  resolves, and the stream \<^verbatim>\<open>drive.files.get\<close> resolves to (\<open>None\<close> when it rejects).
\<close>

record stream_env =
  stream_client_ok :: bool
  files_get :: "string option"

definition stream :: "song json_api \<Rightarrow> stream_env \<Rightarrow> string \<Rightarrow> state \<Rightarrow> response \<times> state" where
  "stream J env req_id st =
     (let (all_songs, st1) = readJSON (JSON_parse J) SONGS_FILE st
      in case find (\<lambda>s. song_id s = req_id) all_songs of
           None \<Rightarrow>
             (Response 404 (Error ''Song not found''),
              emit (ConsoleError (''Song not found for ID: '' @ req_id)) st1)
         | Some s \<Rightarrow>
             (case truthy (driveFileId s) of
                None \<Rightarrow>
                  (Response 404 (Error ''Audio file not found''),
                   emit (ConsoleErrorAbout ''No Drive file ID for song: '' (title s)) st1)
              | Some handle \<Rightarrow>
                  (let st2 = emit GetDriveClient st1
                   in if \<not> stream_client_ok env then
                        (Response 500 (Error ''Failed to initialize Google Drive''),
                         emit (ConsoleError ''Failed to initialize Drive client:'') st2)
                      else
                        (let st3 = emit (FilesGet handle) st2
                         in case files_get env of
                              None \<Rightarrow>
                                (Response 500 (Error ''Failed to stream audio''),
                                 emit (ConsoleError ''Drive streaming error:'') st3)
                            | Some bytes \<Rightarrow> (Response 200 (Audio bytes), st3)))))"

section \<open>Paths\<close>

text \<open>
  \<^verbatim>\<open>path.extname\<close> (POSIX flavour) is the platform's; its loop runs from the last code
  unit of the path to the first and keeps five variables: \<open>startDot\<close>, \<open>startPart\<close>,
  \<open>end\<close>, \<open>matchedSlash\<close> and \<open>preDotState\<close>, with \<open>-1\<close> for "not seen yet".
  \<open>extname_scan p (Suc i)\<close> is the loop body at index \<open>i\<close>. The code units 47 and 46 are
  the slash and the dot.
\<close>

fun extname_scan :: "ustring \<Rightarrow> nat \<Rightarrow> int \<times> nat \<times> int \<times> bool \<times> int \<Rightarrow> int \<times> nat \<times> int \<times> bool \<times> int" where
  "extname_scan p 0 v = v"
| "extname_scan p (Suc i) (startDot, startPart, end_ix, matchedSlash, preDotState) =
     (if p ! i = 47 then
        (if \<not> matchedSlash then (startDot, Suc i, end_ix, matchedSlash, preDotState)
         else extname_scan p i (startDot, startPart, end_ix, matchedSlash, preDotState))
      else
        (let (end1, matchedSlash1) =
               (if end_ix = -1 then (int i + 1, False) else (end_ix, matchedSlash))
         in if p ! i = 46 then
              (if startDot = -1 then
                 extname_scan p i (int i, startPart, end1, matchedSlash1, preDotState)
               else if preDotState \<noteq> 1 then
                 extname_scan p i (startDot, startPart, end1, matchedSlash1, 1)
               else extname_scan p i (startDot, startPart, end1, matchedSlash1, preDotState))
            else if startDot \<noteq> -1 then
              extname_scan p i (startDot, startPart, end1, matchedSlash1, -1)
            else extname_scan p i (startDot, startPart, end1, matchedSlash1, preDotState)))"

definition extname :: "ustring \<Rightarrow> ustring" where
  "extname p =
     (let (startDot, startPart, end_ix, matchedSlash, preDotState) =
            extname_scan p (length p) (-1, 0, -1, True, 0)
      in if startDot = -1 \<or> end_ix = -1 \<or> preDotState = 0 \<or>
            (preDotState = 1 \<and> startDot = end_ix - 1 \<and> startDot = int startPart + 1)
         then []
         else take (nat end_ix - nat startDot) (drop (nat startDot) p))"

definition path_join :: "string \<Rightarrow> string \<Rightarrow> string" where
  "path_join dir file = dir @ ''/'' @ file"

section \<open>Ingestion pipeline\<close>

text \<open>\<^verbatim>\<open>req.file\<close> as the upload middleware fills it, once the file is staged.\<close>

record upfile =
  filename :: string
  originalname :: ustring
  mimetype :: string

record common_tags =
  tag_title :: "ustring option"
  tag_artist :: "ustring option"
  tag_album :: "ustring option"
  tag_genre :: "ustring list option"

record metadata =
  common :: "common_tags option"
  format_duration :: "real option"

datatype lrc_answer = NoResult | Unsynced "ustring option"

record mb_lookup_result =
  releases :: "string list option"
  genres :: "ustring list option"

text \<open>
  What the outside answers during one upload. \<open>None\<close> stands for a call that throws or
  rejects; \<open>unlink_ok\<close> says whether \<^verbatim>\<open>fsPromises.unlink\<close> manages to remove a file that
  exists. \<open>uuid\<close> and \<open>now\<close> are the results of \<^verbatim>\<open>uuidv4()\<close> and \<^verbatim>\<open>new Date()\<close> for the
  new record.
\<close>

record upload_env =
  client_ok :: bool
  parseFile :: "metadata option"
  files_create :: "string option"
  permissions_ok :: bool
  unlink_ok :: bool
  mb_search :: "string list option option"
  mb_lookup :: "mb_lookup_result option"
  lrc_getUnsynced :: "lrc_answer option"
  uuid :: string
  now :: string

text \<open>\<^verbatim>\<open>await fsPromises.unlink(p).catch(err => console.error(...))\<close>\<close>

definition unlink_logged :: "bool \<Rightarrow> string \<Rightarrow> state \<Rightarrow> state" where
  "unlink_logged ok p st =
     (let st1 = emit (Unlink p) st
      in if ok \<and> files st1 p \<noteq> None then st1\<lparr>files := (files st1)(p := None)\<rparr>
         else emit (ConsoleError ''Failed to delete temp file:'') st1)"

definition no_tags :: common_tags where
  "no_tags = \<lparr>tag_title = None, tag_artist = None, tag_album = None, tag_genre = None\<rparr>"

text \<open>The variable \<open>common\<close> after the first \<^verbatim>\<open>try\<close> block: \<^verbatim>\<open>metadata.common || {}\<close>, or \<^verbatim>\<open>{}\<close>.\<close>

definition common_of :: "metadata option \<Rightarrow> common_tags" where
  "common_of m =
     (case m of
        None \<Rightarrow> no_tags
      | Some md \<Rightarrow> (case common md of None \<Rightarrow> no_tags | Some c \<Rightarrow> c))"

definition basic_title :: "metadata option \<Rightarrow> upfile \<Rightarrow> ustring" where
  "basic_title m f =
     or_else (tag_title (common_of m))
       (replace_str (originalname f) (extname (originalname f)) [])"

definition basic_artist :: "metadata option \<Rightarrow> ustring" where
  "basic_artist m = or_else (tag_artist (common_of m)) (ustr ''Unknown'')"

definition basic_album :: "metadata option \<Rightarrow> ustring" where
  "basic_album m = or_else (tag_album (common_of m)) (ustr ''Unknown'')"

text \<open>
  \<^verbatim>\<open>common.genre ? common.genre[0] : 'Unknown'\<close>: an array is truthy even when empty, and
  the first element of an empty array is \<^verbatim>\<open>undefined\<close>.
\<close>

definition basic_genre :: "metadata option \<Rightarrow> ustring option" where
  "basic_genre m =
     (case tag_genre (common_of m) of
        None \<Rightarrow> Some (ustr ''Unknown'')
      | Some g \<Rightarrow> (case g of [] \<Rightarrow> None | x # _ \<Rightarrow> Some x))"

definition basic_duration :: "metadata option \<Rightarrow> real" where
  "basic_duration m =
     (case m of
        None \<Rightarrow> 0
      | Some md \<Rightarrow> (case format_duration md of None \<Rightarrow> 0 | Some d \<Rightarrow> if d = 0 then 0 else d))"

text \<open>Step 2 of the handler: the \<^verbatim>\<open>try\<close> block around the two calls to the remote storage.\<close>

definition drive_upload :: "upload_env \<Rightarrow> upfile \<Rightarrow> string \<Rightarrow> state \<Rightarrow> string option \<times> state" where
  "drive_upload env f songPath st =
     (let st1 = emit (FilesCreate (filename f)) st
      in case files_create env of
           None \<Rightarrow> (None, st1)
         | Some fid \<Rightarrow>
             (let obj = \<lparr>object_id = fid, object_name = filename f, mimeType = mimetype f,
                        body = files st songPath, anyone_reader = False\<rparr>;
                  st2 = emit (PermissionsCreate fid) (st1\<lparr>drive := drive st1 @ [obj]\<rparr>)
              in if permissions_ok env
                 then (Some fid, st2\<lparr>drive := drive st1 @ [obj\<lparr>anyone_reader := True\<rparr>]\<rparr>)
                 else (None, st2)))"

text \<open>
  Step 3, first \<^verbatim>\<open>try\<close> block: album art and genre. The result is \<open>(albumArt, genre)\<close>;
  the code unit 34 is the double quote of the search query.
\<close>

definition musicbrainz :: "upload_env \<Rightarrow> ustring \<Rightarrow> ustring \<Rightarrow> ustring option \<Rightarrow> state \<Rightarrow> (string option \<times> ustring option) \<times> state" where
  "musicbrainz env t a g st =
     (let st1 = emit (MbSearch (ustr ''recording:'' @ [34] @ t @ [34] @
                                ustr '' AND artist:'' @ [34] @ a @ [34])) st
      in case mb_search env of
           None \<Rightarrow> ((None, g), emit (ConsoleError ''MusicBrainz API error:'') st1)
         | Some recs \<Rightarrow>
             (case recs of
                Some (recordingMbid # _) \<Rightarrow>
                  (let st2 = emit (MbLookup recordingMbid) st1
                   in case mb_lookup env of
                        None \<Rightarrow> ((None, g), emit (ConsoleError ''MusicBrainz API error:'') st2)
                      | Some res \<Rightarrow>
                          ((case releases res of
                              Some (releaseMbid # _) \<Rightarrow>
                                Some (''https://coverartarchive.org/release/'' @ releaseMbid @ ''/front-500'')
                            | _ \<Rightarrow> None,
                            case genres res of Some (gname # _) \<Rightarrow> Some gname | _ \<Rightarrow> g),
                           st2))
              | _ \<Rightarrow> ((None, g), st1)))"

text \<open>Step 3, second \<^verbatim>\<open>try\<close> block: lyrics.\<close>

definition lrclib :: "upload_env \<Rightarrow> ustring \<Rightarrow> ustring \<Rightarrow> state \<Rightarrow> ustring option \<times> state" where
  "lrclib env t a st =
     (let st1 = emit (LrcGetUnsynced t a) st
      in case lrc_getUnsynced env of
           None \<Rightarrow> (None, emit (ConsoleError ''LRCLIB API error:'') st1)
         | Some NoResult \<Rightarrow> (None, st1)
         | Some (Unsynced plain) \<Rightarrow> (plain, st1))"

text \<open>Step 3 as a whole; the result is \<open>(albumArt, lyrics, genre)\<close>.\<close>

definition enrich :: "upload_env \<Rightarrow> ustring \<Rightarrow> ustring \<Rightarrow> ustring option \<Rightarrow> state \<Rightarrow> (string option \<times> ustring option \<times> ustring option) \<times> state" where
  "enrich env t a g st =
     (if t \<noteq> [] \<and> a \<noteq> ustr ''Unknown'' then
        (let ((art, g1), st1) = musicbrainz env t a g st;
             (lyr, st2) = lrclib env t a st1
         in ((art, lyr, g1), st2))
      else ((None, None, g), st))"

text \<open>Step 1 of the handler: the \<^verbatim>\<open>try\<close> block around the local tag extraction.\<close>

definition extract_tags :: "upload_env \<Rightarrow> string \<Rightarrow> state \<Rightarrow> state" where
  "extract_tags env songPath st =
     (let st1 = emit (ParseFile songPath) st
      in case parseFile env of
           None \<Rightarrow> emit (ConsoleError ''Metadata extraction failed:'') st1
         | Some md \<Rightarrow> st1)"

text \<open>Step 4 of the handler: the new record is pushed and the collection written back.\<close>

definition save_song :: "song json_api \<Rightarrow> song \<Rightarrow> state \<Rightarrow> state" where
  "save_song J newSong st =
     (let (all_songs, st1) = readJSON (JSON_parse J) SONGS_FILE st
      in writeJSON (JSON_stringify J) SONGS_FILE (all_songs @ [newSong]) st1)"

definition upload :: "song json_api \<Rightarrow> upload_env \<Rightarrow> upfile option \<Rightarrow> state \<Rightarrow> response \<times> state" where
  "upload J env req_file st =
     (case req_file of
        None \<Rightarrow> (Response 400 (Error ''No file uploaded''), st)
      | Some f \<Rightarrow>
          (let songPath = path_join UPLOAD_DIR (filename f);
               st1 = emit GetDriveClient st
           in if \<not> client_ok env then
                (Response 500 (Error ''Failed to initialize Google Drive''),
                 unlink_logged (unlink_ok env) songPath
                   (emit (ConsoleError ''Failed to initialize Drive client:'') st1))
              else
                (let st2 = extract_tags env songPath st1;
                     t = basic_title (parseFile env) f;
                     a = basic_artist (parseFile env);
                     al = basic_album (parseFile env);
                     g = basic_genre (parseFile env);
                     d = basic_duration (parseFile env);
                     (uploaded, st3) = drive_upload env f songPath st2
                 in case uploaded of
                      None \<Rightarrow>
                        (Response 500 (Error ''Failed to upload to Google Drive''),
                         unlink_logged (unlink_ok env) songPath
                           (emit (ConsoleError ''Drive upload failed:'') st3))
                    | Some fid \<Rightarrow>
                        (let st4 = unlink_logged (unlink_ok env) songPath st3;
                             ((art, lyr, g1), st5) = enrich env t a g st4;
                             newSong = \<lparr>song_id = uuid env, title = t, artist = a, album = al,
                                        genre = g1, duration = d, albumArt = art, lyrics = lyr,
                                        driveFileId = Some fid, createdAt = now env\<rparr>
                         in (Response 200 (SongJ newSong), save_song J newSong st5)))))"

section \<open>Catalog API: playlists\<close>

definition get_playlists :: "playlist json_api \<Rightarrow> state \<Rightarrow> response \<times> state" where
  "get_playlists JP st =
     (let (playlists, st1) = readJSON (JSON_parse JP) PLAYLISTS_FILE st
      in (Response 200 (PlaylistsJ playlists), st1))"

definition create_playlist :: "playlist json_api \<Rightarrow> string \<Rightarrow> ustring option \<Rightarrow> state \<Rightarrow> response \<times> state" where
  "create_playlist JP new_id body_name st =
     (case truthy body_name of
        None \<Rightarrow> (Response 400 (Error ''Playlist name required''), st)
      | Some nm \<Rightarrow>
          (let (playlists, st1) = readJSON (JSON_parse JP) PLAYLISTS_FILE st;
               newPlaylist = \<lparr>playlist_id = new_id, name = nm, songs = []\<rparr>;
               st2 = writeJSON (JSON_stringify JP) PLAYLISTS_FILE (playlists @ [newPlaylist]) st1
           in (Response 200 (PlaylistJ newPlaylist), st2)))"

definition get_playlist :: "playlist json_api \<Rightarrow> string \<Rightarrow> state \<Rightarrow> response \<times> state" where
  "get_playlist JP req_id st =
     (let (playlists, st1) = readJSON (JSON_parse JP) PLAYLISTS_FILE st
      in case find (\<lambda>p. playlist_id p = req_id) playlists of
           None \<Rightarrow> (Response 404 (Error ''Playlist not found''), st1)
         | Some p \<Rightarrow> (Response 200 (PlaylistJ p), st1))"

subsection \<open>Objects and their identity\<close>

text \<open>
  \<^verbatim>\<open>playlist.songs.includes(song)\<close> compares objects by identity, so the add-song handler
  is modelled on objects that carry the address they were allocated at. Every object
  that \<^verbatim>\<open>JSON.parse\<close> builds is new: within one request the playlists are loaded from
  address 0 on, and the songs from the first address the playlists left free.
\<close>

record playlist_mem =
  mem_ref :: nat
  mem_id :: string
  mem_name :: ustring
  mem_songs :: "(nat \<times> song) list"

definition load_songs :: "nat \<Rightarrow> song list \<Rightarrow> (nat \<times> song) list" where
  "load_songs n ss = zip [n ..< n + length ss] ss"

fun load_playlists :: "nat \<Rightarrow> playlist list \<Rightarrow> playlist_mem list \<times> nat" where
  "load_playlists n [] = ([], n)"
| "load_playlists n (p # ps) =
     (let (rest, n') = load_playlists (Suc n + length (songs p)) ps
      in (\<lparr>mem_ref = n, mem_id = playlist_id p, mem_name = name p,
           mem_songs = load_songs (Suc n) (songs p)\<rparr> # rest, n'))"

text \<open>What \<^verbatim>\<open>JSON.stringify\<close> and \<^verbatim>\<open>res.json\<close> see of a playlist object.\<close>

definition unload :: "playlist_mem \<Rightarrow> playlist" where
  "unload pm = \<lparr>playlist_id = mem_id pm, name = mem_name pm, songs = map snd (mem_songs pm)\<rparr>"

definition includes_obj :: "(nat \<times> song) list \<Rightarrow> nat \<times> song \<Rightarrow> bool" where
  "includes_obj xs x = (fst x \<in> set (map fst xs))"

definition add_song :: "playlist json_api \<Rightarrow> song json_api \<Rightarrow> string \<Rightarrow> string option \<Rightarrow> state \<Rightarrow> response \<times> state" where
  "add_song JP J req_id songId st =
     (let (playlists0, st1) = readJSON (JSON_parse JP) PLAYLISTS_FILE st;
          (playlists, free) = load_playlists 0 playlists0
      in case List.extract (\<lambda>p. mem_id p = req_id) playlists of
           None \<Rightarrow> (Response 404 (Error ''Playlist not found''), st1)
         | Some (before, pl, after) \<Rightarrow>
             (let (songs0, st2) = readJSON (JSON_parse J) SONGS_FILE st1;
                  all_songs = load_songs free songs0
              in case find (\<lambda>s. Some (song_id (snd s)) = songId) all_songs of
                   None \<Rightarrow> (Response 404 (Error ''Song not found''), st2)
                 | Some s \<Rightarrow>
                     (let pl' = (if \<not> includes_obj (mem_songs pl) s
                                 then pl\<lparr>mem_songs := mem_songs pl @ [s]\<rparr> else pl);
                          st3 = writeJSON (JSON_stringify JP) PLAYLISTS_FILE
                                  (map unload (before @ [pl'] @ after)) st2
                      in (Response 200 (PlaylistJ (unload pl')), st3))))"

section \<open>Notions of the specification\<close>





text \<open>The file name with its extension stripped: the extension is cut off the end.\<close>

definition strip_extension :: "ustring \<Rightarrow> ustring" where
  "strip_extension fname = take (length fname - length (extname fname)) fname"

text \<open>The number of entries of a song sequence that carry a given id.\<close>

definition entries_with_id :: "string \<Rightarrow> song list \<Rightarrow> nat" where
  "entries_with_id i ss = length (filter (\<lambda>s. song_id s = i) ss)"

text \<open>
  A backing file is readable when it exists, holds more than white space, and its text
  parses.
\<close>

definition readable :: "(string \<Rightarrow> 'a list option) \<Rightarrow> state \<Rightarrow> string \<Rightarrow> bool" where
  "readable parse_text st file =
     (case files st file of
        None \<Rightarrow> False
      | Some raw \<Rightarrow> trim raw \<noteq> [] \<and> parse_text (trim raw) \<noteq> None)"

text \<open>
  The genre the external recording index reports: the search finds a recording, the
  look-up of that recording succeeds, and its answer lists a genre.
\<close>

definition reported_genre :: "upload_env \<Rightarrow> ustring option" where
  "reported_genre env =
     (case mb_search env of
        Some (Some (r # _)) \<Rightarrow>
          (case mb_lookup env of
             Some res \<Rightarrow> (case genres res of Some (gname # _) \<Rightarrow> Some gname | _ \<Rightarrow> None)
           | None \<Rightarrow> None)
      | _ \<Rightarrow> None)"

text \<open>Calls in a trace: removals of a file, and calls to the remote storage.\<close>

definition is_unlink :: "event \<Rightarrow> bool" where
  "is_unlink e = (case e of Unlink p \<Rightarrow> True | _ \<Rightarrow> False)"

definition is_storage_call :: "event \<Rightarrow> bool" where
  "is_storage_call e =
     (case e of FilesCreate n \<Rightarrow> True | PermissionsCreate i \<Rightarrow> True | FilesGet i \<Rightarrow> True | _ \<Rightarrow> False)"

section \<open>Concrete inputs\<close>

text \<open>
  Two songs, a playlist, and a fragment of the JSON text format that is enough to run
  the handlers on them: the text \<open>S\<close> stands for the serialisation of the two songs and
  the text \<open>P\<close> for that of the playlist. A third song has a Greek title, the four
  capital letters omicron, delta, omicron, sigma; the text \<open>G\<close> stands for the
  serialisation of the collection that holds it alone.
\<close>

definition blue_skies :: song where
  "blue_skies = \<lparr>song_id = ''s1'', title = ustr ''Blue Skies'', artist = ustr ''Ana'',
     album = ustr ''Unknown'', genre = Some (ustr ''Unknown''), duration = 0, albumArt = None, lyrics = None,
     driveFileId = Some ''d1'', createdAt = ''2024-01-01T00:00:00.000Z''\<rparr>"

definition red_moon :: song where
  "red_moon = \<lparr>song_id = ''s2'', title = ustr ''Red Moon'', artist = ustr ''Bo'',
     album = ustr ''Unknown'', genre = Some (ustr ''Unknown''), duration = 0, albumArt = None, lyrics = None,
     driveFileId = None, createdAt = ''2024-01-02T00:00:00.000Z''\<rparr>"

definition mix :: playlist where
  "mix = \<lparr>playlist_id = ''p1'', name = ustr ''mix'', songs = [blue_skies]\<rparr>"


definition songs_json :: "song json_api" where
  "songs_json =
     \<lparr>JSON_parse = (\<lambda>c. if c = ''[]'' then Some []
                         else if c = ''S'' then Some [blue_skies, red_moon] else None),
      JSON_stringify = (\<lambda>ss. if ss = [] then ''[]''
                         else if ss = [blue_skies, red_moon] then ''S'' else ''S+'')\<rparr>"

definition playlists_json :: "playlist json_api" where
  "playlists_json =
     \<lparr>JSON_parse = (\<lambda>c. if c = ''[]'' then Some []
                         else if c = ''P'' then Some [mix] else None),
      JSON_stringify = (\<lambda>ps. if ps = [] then ''[]''
                         else if ps = [mix] then ''P'' else ''P+'')\<rparr>"



definition disk :: state where
  "disk = \<lparr>files = [SONGS_FILE \<mapsto> ''S'', PLAYLISTS_FILE \<mapsto> ''P'',
                     ''temp_uploads/tok.mp3'' \<mapsto> ''ID3...''],
            drive = [], trace = []\<rparr>"

definition empty_disk :: state where
  "empty_disk = \<lparr>files = Map.empty, drive = [], trace = []\<rparr>"

definition tok :: upfile where
  "tok = \<lparr>filename = ''tok.mp3'', originalname = ustr ''song.mp3'', mimetype = ''audio/mpeg''\<rparr>"

definition tagged :: metadata where
  "tagged = \<lparr>common = Some \<lparr>tag_title = Some (ustr ''Blue Skies''),
                             tag_artist = Some (ustr ''Ana''),
                             tag_album = None, tag_genre = None\<rparr>,
             format_duration = None\<rparr>"

definition outside :: upload_env where
  "outside = \<lparr>client_ok = True, parseFile = Some tagged, files_create = Some ''d9'',
     permissions_ok = True, unlink_ok = True, mb_search = Some (Some [''rec1'']),
     mb_lookup = Some \<lparr>releases = Some [''rel1''], genres = Some [ustr ''jazz'']\<rparr>,
     lrc_getUnsynced = Some NoResult, uuid = ''s3'', now = ''2024-01-03T00:00:00.000Z''\<rparr>"

definition stream_outside :: stream_env where
  "stream_outside = \<lparr>stream_client_ok = True, files_get = Some ''ID3...''\<rparr>"

section \<open>Facts about the string methods\<close>



lemma includes_str_empty: "includes_str s []"
  by (induction s) (simp_all add: startsWith_def)




lemma toLowerCase_empty: "toLowerCase [] = []"
  by (simp add: toLowerCase_def)






lemma trim_brackets: "trim ''[]'' = ''[]''"
  by (simp add: trim_def is_white_def)

section \<open>Facts about the state operations\<close>

lemma emit_fields:
  "files (emit e st) = files st" "drive (emit e st) = drive st"
  "trace (emit e st) = trace st @ [e]"
  by (simp_all add: emit_def)

lemma writeFileSync_fields:
  "files (writeFileSync file data st) = (files st)(file \<mapsto> data)"
  "drive (writeFileSync file data st) = drive st"
  "trace (writeFileSync file data st) = trace st"
  by (simp_all add: writeFileSync_def)

lemma writeJSON_fields:
  "files (writeJSON to_text file data st) = (files st)(file \<mapsto> to_text data)"
  "drive (writeJSON to_text file data st) = drive st"
  "trace (writeJSON to_text file data st) = trace st"
  by (simp_all add: writeJSON_def writeFileSync_fields)

lemma readJSON_files:
  "files (snd (readJSON parse_text file st)) =
     (if readable parse_text st file then files st else (files st)(file \<mapsto> ''[]''))"
  by (simp add: readJSON_def readable_def Let_def writeFileSync_fields emit_fields
           split: option.splits)

lemma readJSON_drive: "drive (snd (readJSON parse_text file st)) = drive st"
  by (simp add: readJSON_def Let_def writeFileSync_fields emit_fields split: option.splits)

lemma readJSON_trace:
  "trace (snd (readJSON parse_text file st)) = trace st \<or>
   trace (snd (readJSON parse_text file st)) =
     trace st @ [ConsoleError (''Invalid JSON in '' @ file @ '', resetting...'')]"
  by (simp add: readJSON_def Let_def writeFileSync_fields emit_fields split: option.splits)

lemma readJSON_readable:
  "readable parse_text st file \<Longrightarrow>
     readJSON parse_text file st = (the (parse_text (trim (the (files st file)))), st)"
  by (auto simp: readJSON_def readable_def Let_def split: option.splits)

lemma readJSON_unreadable:
  "\<not> readable parse_text st file \<Longrightarrow> fst (readJSON parse_text file st) = []"
  by (auto simp: readJSON_def readable_def Let_def split: option.splits)

lemma readJSON_parsed:
  "files st file = Some raw \<Longrightarrow> trim raw \<noteq> [] \<Longrightarrow> parse_text (trim raw) = Some d \<Longrightarrow>
     readJSON parse_text file st = (d, st)"
  by (simp add: readJSON_def)

section \<open>Catalog Store\<close>

text \<open>
  C3. Whatever the backing file is when it cannot be read as a collection (absent, blank,
  or holding text that does not parse), \<open>readJSON\<close> returns the empty collection as an
  ordinary value, leaves the file holding the empty collection \<^verbatim>\<open>[]\<close>, and a second read
  returns the empty collection again and changes nothing. The text \<^verbatim>\<open>[]\<close> is taken to
  parse to the empty collection, as it does for \<^verbatim>\<open>JSON.parse\<close>.
\<close>

theorem readJSON_recovers:
  assumes "files st file = None \<or>
           (\<exists>raw. files st file = Some raw \<and> (trim raw = [] \<or> parse_text (trim raw) = None))"
    and "parse_text ''[]'' = Some []"
  shows "fst (readJSON parse_text file st) = [] \<and>
         files (snd (readJSON parse_text file st)) = (files st)(file \<mapsto> ''[]'') \<and>
         readJSON parse_text file (snd (readJSON parse_text file st)) =
           ([], snd (readJSON parse_text file st))"
proof -
  from assms(1) have unreadable: "\<not> readable parse_text st file"
    by (auto simp: readable_def)
  let ?st1 = "snd (readJSON parse_text file st)"
  have empty: "fst (readJSON parse_text file st) = []"
    using unreadable by (rule readJSON_unreadable)
  have rewritten: "files ?st1 = (files st)(file \<mapsto> ''[]'')"
    using unreadable by (simp add: readJSON_files)
  then have holds: "files ?st1 file = Some ''[]''" by simp
  have "readJSON parse_text file ?st1 = ([], ?st1)"
    by (rule readJSON_parsed [OF holds]) (simp_all add: trim_brackets assms(2))
  with empty rewritten show ?thesis by simp
qed

text \<open>An instance: the songs file holds text that does not parse.\<close>

theorem readJSON_recovers_witness:
  "fst (readJSON (JSON_parse songs_json) SONGS_FILE
          \<lparr>files = [SONGS_FILE \<mapsto> ''{oops''], drive = [], trace = []\<rparr>) = [] \<and>
   files (snd (readJSON (JSON_parse songs_json) SONGS_FILE
          \<lparr>files = [SONGS_FILE \<mapsto> ''{oops''], drive = [], trace = []\<rparr>)) SONGS_FILE = Some ''[]''"
proof -
  let ?st = "\<lparr>files = [SONGS_FILE \<mapsto> ''{oops''], drive = [], trace = []\<rparr>"
  have "trim ''{oops'' = ''{oops''"
    by (simp add: trim_def is_white_def)
  then have h1: "files ?st SONGS_FILE = None \<or>
       (\<exists>raw. files ?st SONGS_FILE = Some raw \<and>
          (trim raw = [] \<or> JSON_parse songs_json (trim raw) = None))"
    by (simp add: songs_json_def)
  have h2: "JSON_parse songs_json ''[]'' = Some []"
    by (simp add: songs_json_def)
  from readJSON_recovers [OF h1 h2] show ?thesis by simp
qed

text \<open>
  C9. A collection written with \<open>writeJSON\<close> is what the next \<open>readJSON\<close> of the same file
  returns, and that read leaves the file as written. The serialiser and the parser are
  the platform's: the collection is one whose text parses back to it, and the empty
  text does not parse.
\<close>

theorem write_then_read:
  assumes "parse_text (trim (to_text d)) = Some d" and "parse_text [] = None"
  shows "readJSON parse_text file (writeJSON to_text file d st) = (d, writeJSON to_text file d st)"
proof -
  have "trim (to_text d) \<noteq> []" using assms by auto
  with assms(1) show ?thesis
    by (simp add: readJSON_def writeJSON_def writeFileSync_def)
qed

text \<open>An instance: the two songs, written to a disk without files and read back.\<close>

theorem write_then_read_witness:
  "readJSON (JSON_parse songs_json) SONGS_FILE
     (writeJSON (JSON_stringify songs_json) SONGS_FILE [blue_skies, red_moon] empty_disk) =
   ([blue_skies, red_moon],
    writeJSON (JSON_stringify songs_json) SONGS_FILE [blue_skies, red_moon] empty_disk)"
proof -
  have "trim ''S'' = ''S''" by (simp add: trim_def is_white_def)
  then have h1: "JSON_parse songs_json (trim (JSON_stringify songs_json [blue_skies, red_moon])) =
      Some [blue_skies, red_moon]"
    by (simp add: songs_json_def)
  have h2: "JSON_parse songs_json [] = None" by (simp add: songs_json_def)
  from write_then_read [of "JSON_parse songs_json" "JSON_stringify songs_json"
      "[blue_skies, red_moon]" SONGS_FILE empty_disk, OF h1 h2]
  show ?thesis .
qed

section \<open>Search\<close>

lemma search_response:
  "fst (search J query_q st) =
     Response 200 (SongsJ (filter (search_match (toLowerCase (or_else query_q [])))
                             (fst (readJSON (JSON_parse J) SONGS_FILE st))))"
  by (simp add: search_def split: prod.splits)

lemma filter_search_match_empty: "filter (search_match []) ss = ss"
  by (induction ss) (simp_all add: search_match_def includes_str_empty)


lemma disk_songs: "readJSON (JSON_parse songs_json) SONGS_FILE disk = ([blue_skies, red_moon], disk)"
proof -
  have "trim ''S'' = ''S''" by (simp add: trim_def is_white_def)
  then show ?thesis
    by (simp add: readJSON_def disk_def songs_json_def SONGS_FILE_def PLAYLISTS_FILE_def)
qed





text \<open>
  C10. With no query parameter, or with the empty string as query, the search handler
  answers 200 with the whole song collection.
\<close>

theorem search_empty_query_returns_all:
  "fst (search J None st) = Response 200 (SongsJ (fst (readJSON (JSON_parse J) SONGS_FILE st))) \<and>
   fst (search J (Some []) st) = Response 200 (SongsJ (fst (readJSON (JSON_parse J) SONGS_FILE st)))"
  by (simp add: search_response or_else_def toLowerCase_empty filter_search_match_empty)

section \<open>Facts about the stages of the ingestion pipeline\<close>

lemma unlink_logged_files:
  "files (unlink_logged ok p st) = (if ok then (files st)(p := None) else files st)"
  by (auto simp: unlink_logged_def emit_fields Let_def)

lemma unlink_logged_drive: "drive (unlink_logged ok p st) = drive st"
  by (simp add: unlink_logged_def emit_fields Let_def)

lemma unlink_logged_trace:
  "trace (unlink_logged ok p st) =
     trace st @ Unlink p #
       (if ok \<and> files st p \<noteq> None then [] else [ConsoleError ''Failed to delete temp file:''])"
  by (simp add: unlink_logged_def emit_fields Let_def)

lemma extract_tags_fields:
  "files (extract_tags env p st) = files st" "drive (extract_tags env p st) = drive st"
  by (simp_all add: extract_tags_def emit_fields Let_def split: option.splits)

lemma extract_tags_trace:
  "trace (extract_tags env p st) =
     trace st @ ParseFile p #
       (case parseFile env of None \<Rightarrow> [ConsoleError ''Metadata extraction failed:''] | Some md \<Rightarrow> [])"
  by (simp add: extract_tags_def emit_fields Let_def split: option.splits)

lemma drive_upload_result:
  "fst (drive_upload env f p st) =
     (case files_create env of
        None \<Rightarrow> None
      | Some fid \<Rightarrow> if permissions_ok env then Some fid else None)"
  by (simp add: drive_upload_def Let_def split: option.splits)

lemma drive_upload_files: "files (snd (drive_upload env f p st)) = files st"
  by (simp add: drive_upload_def emit_fields Let_def split: option.splits)

lemma drive_upload_trace:
  "trace (snd (drive_upload env f p st)) =
     trace st @ FilesCreate (filename f) #
       (case files_create env of None \<Rightarrow> [] | Some fid \<Rightarrow> [PermissionsCreate fid])"
  by (simp add: drive_upload_def emit_fields Let_def split: option.splits)

lemma musicbrainz_files: "files (snd (musicbrainz env t a g st)) = files st"
  by (simp add: musicbrainz_def emit_fields Let_def split: option.splits list.splits)

lemma musicbrainz_quiet:
  "\<exists>evs. trace (snd (musicbrainz env t a g st)) = trace st @ evs \<and>
         filter is_unlink evs = [] \<and> filter is_storage_call evs = []"
  by (simp add: musicbrainz_def emit_fields Let_def is_unlink_def is_storage_call_def
           split: option.splits list.splits)

lemma musicbrainz_value: "fst (musicbrainz env t a g st) = fst (musicbrainz env t a g st')"
  by (simp add: musicbrainz_def Let_def split: option.splits list.splits)

lemma lrclib_files: "files (snd (lrclib env t a st)) = files st"
  by (simp add: lrclib_def emit_fields Let_def split: option.splits lrc_answer.splits)

lemma lrclib_quiet:
  "\<exists>evs. trace (snd (lrclib env t a st)) = trace st @ evs \<and>
         filter is_unlink evs = [] \<and> filter is_storage_call evs = []"
  by (simp add: lrclib_def emit_fields Let_def is_unlink_def is_storage_call_def
           split: option.splits lrc_answer.splits)

lemma lrclib_value: "fst (lrclib env t a st) = fst (lrclib env t a st')"
  by (simp add: lrclib_def Let_def split: option.splits lrc_answer.splits)

lemma enrich_files: "files (snd (enrich env t a g st)) = files st"
  by (simp add: enrich_def Let_def lrclib_files musicbrainz_files split: prod.splits)
     (metis lrclib_files musicbrainz_files snd_conv)

lemma enrich_quiet:
  "\<exists>evs. trace (snd (enrich env t a g st)) = trace st @ evs \<and>
         filter is_unlink evs = [] \<and> filter is_storage_call evs = []"
proof (cases "t \<noteq> [] \<and> a \<noteq> ustr ''Unknown''")
  case False
  then show ?thesis by (auto simp: enrich_def)
next
  case True
  let ?st1 = "snd (musicbrainz env t a g st)"
  obtain e1 where e1: "trace ?st1 = trace st @ e1" "filter is_unlink e1 = []"
      "filter is_storage_call e1 = []"
    using musicbrainz_quiet by blast
  obtain e2 where e2: "trace (snd (lrclib env t a ?st1)) = trace ?st1 @ e2"
      "filter is_unlink e2 = []" "filter is_storage_call e2 = []"
    using lrclib_quiet by blast
  have "snd (enrich env t a g st) = snd (lrclib env t a ?st1)"
    using True by (simp add: enrich_def Let_def split: prod.splits)
  then have "trace (snd (enrich env t a g st)) = trace st @ (e1 @ e2)"
    using e1 e2 by simp
  moreover have "filter is_unlink (e1 @ e2) = []" "filter is_storage_call (e1 @ e2) = []"
    using e1 e2 by simp_all
  ultimately show ?thesis by blast
qed

lemma enrich_value: "fst (enrich env t a g st) = fst (enrich env t a g st')"
proof (cases "t \<noteq> [] \<and> a \<noteq> ustr ''Unknown''")
  case False
  then show ?thesis by (auto simp: enrich_def)
next
  case True
  have "fst (enrich env t a g s) =
          (fst (fst (musicbrainz env t a g s)),
           fst (lrclib env t a (snd (musicbrainz env t a g s))),
           snd (fst (musicbrainz env t a g s)))" for s
    using True by (simp add: enrich_def Let_def split: prod.splits)
  then show ?thesis
    using musicbrainz_value [of env t a g st st']
      lrclib_value [of env t a "snd (musicbrainz env t a g st)" "snd (musicbrainz env t a g st')"]
    by simp
qed

lemma enrich_skipped:
  "a = ustr ''Unknown'' \<Longrightarrow> enrich env t a g st = ((None, None, g), st)"
  by (simp add: enrich_def)

lemma save_song_eq:
  "save_song J newSong st =
     writeJSON (JSON_stringify J) SONGS_FILE
       (fst (readJSON (JSON_parse J) SONGS_FILE st) @ [newSong])
       (snd (readJSON (JSON_parse J) SONGS_FILE st))"
  by (simp add: save_song_def case_prod_beta)

lemma save_song_files:
  "files (save_song J newSong st) SONGS_FILE =
     Some (JSON_stringify J (fst (readJSON (JSON_parse J) SONGS_FILE st) @ [newSong]))"
  "p \<noteq> SONGS_FILE \<Longrightarrow> files (save_song J newSong st) p = files st p"
  by (simp_all add: save_song_eq writeJSON_fields readJSON_files)

lemma save_song_quiet:
  "\<exists>evs. trace (save_song J newSong st) = trace st @ evs \<and>
         filter is_unlink evs = [] \<and> filter is_storage_call evs = []"
  using readJSON_trace [of "JSON_parse J" SONGS_FILE st]
  by (auto simp: save_song_eq writeJSON_fields is_unlink_def is_storage_call_def)

lemma staged_path_not_catalog: "path_join UPLOAD_DIR n \<noteq> SONGS_FILE"
  by (simp add: path_join_def UPLOAD_DIR_def SONGS_FILE_def)

section \<open>The upload handler, branch by branch\<close>

lemma upload_client_failure:
  assumes "\<not> client_ok env"
  shows "upload J env (Some f) st =
    (Response 500 (Error ''Failed to initialize Google Drive''),
     unlink_logged (unlink_ok env) (path_join UPLOAD_DIR (filename f))
       (emit (ConsoleError ''Failed to initialize Drive client:'') (emit GetDriveClient st)))"
  using assms by (simp add: upload_def)

lemma upload_storage_failure_eq:
  assumes "client_ok env"
    and "p = path_join UPLOAD_DIR (filename f)"
    and "st2 = extract_tags env p (emit GetDriveClient st)"
    and "fst (drive_upload env f p st2) = None"
  shows "upload J env (Some f) st =
    (Response 500 (Error ''Failed to upload to Google Drive''),
     unlink_logged (unlink_ok env) p
       (emit (ConsoleError ''Drive upload failed:'') (snd (drive_upload env f p st2))))"
  using assms by (simp add: upload_def Let_def case_prod_beta)

lemma upload_success_eq:
  assumes "client_ok env"
    and "p = path_join UPLOAD_DIR (filename f)"
    and "st2 = extract_tags env p (emit GetDriveClient st)"
    and "fst (drive_upload env f p st2) = Some fid"
    and "st4 = unlink_logged (unlink_ok env) p (snd (drive_upload env f p st2))"
    and "r = enrich env (basic_title (parseFile env) f) (basic_artist (parseFile env))
               (basic_genre (parseFile env)) st4"
    and "newSong = \<lparr>song_id = uuid env, title = basic_title (parseFile env) f,
           artist = basic_artist (parseFile env), album = basic_album (parseFile env),
           genre = snd (snd (fst r)), duration = basic_duration (parseFile env),
           albumArt = fst (fst r), lyrics = fst (snd (fst r)),
           driveFileId = Some fid, createdAt = now env\<rparr>"
  shows "upload J env (Some f) st = (Response 200 (SongJ newSong), save_song J newSong (snd r))"
  using assms by (simp add: upload_def Let_def case_prod_beta)

text \<open>
  C7. An upload request with no file part is answered 400 at once and the state is the
  one the handler started in: no call to the outside is made (the trace is unchanged),
  no file is written (no catalog record), and no remote object is created.
\<close>

theorem upload_no_file:
  "upload J env None st = (Response 400 (Error ''No file uploaded''), st)"
  by (simp add: upload_def)

text \<open>
  C2, as amended. When the remote storage is available but the upload step fails
  (\<^verbatim>\<open>files.create\<close> or \<^verbatim>\<open>permissions.create\<close> rejects), the answer is 500, no file other
  than the staged one is touched (so no catalog record is created), and the staged
  temporary file is gone afterwards when its removal succeeds; when the removal fails,
  the file stays as it was. The removal is the last call of the run and the only removal
  of a file; a failed removal is followed by one line in the error log and by nothing
  else.
\<close>

theorem upload_storage_failure:
  assumes "client_ok env" and "files_create env = None \<or> \<not> permissions_ok env"
  shows "fst (upload J env (Some f) st) = Response 500 (Error ''Failed to upload to Google Drive'') \<and>
         files (snd (upload J env (Some f) st)) =
           (if unlink_ok env then (files st)(path_join UPLOAD_DIR (filename f) := None)
            else files st) \<and>
         (\<exists>pre. trace (snd (upload J env (Some f) st)) =
                  trace st @ pre @ Unlink (path_join UPLOAD_DIR (filename f)) #
                    (if unlink_ok env \<and> files st (path_join UPLOAD_DIR (filename f)) \<noteq> None
                     then [] else [ConsoleError ''Failed to delete temp file:'']) \<and>
                filter is_unlink pre = []) \<and>
         (\<not> unlink_ok env \<longrightarrow>
            ConsoleError ''Failed to delete temp file:''
              \<in> set (trace (snd (upload J env (Some f) st))))"
proof -
  let ?p = "path_join UPLOAD_DIR (filename f)"
  let ?st2 = "extract_tags env ?p (emit GetDriveClient st)"
  let ?tail = "if unlink_ok env \<and> files st ?p \<noteq> None then []
               else [ConsoleError ''Failed to delete temp file:'']"
  let ?pre = "GetDriveClient # ParseFile ?p #
      (case parseFile env of None \<Rightarrow> [ConsoleError ''Metadata extraction failed:''] | Some md \<Rightarrow> []) @
      FilesCreate (filename f) #
      (case files_create env of None \<Rightarrow> [] | Some fid \<Rightarrow> [PermissionsCreate fid]) @
      [ConsoleError ''Drive upload failed:'']"
  have failed: "fst (drive_upload env f ?p ?st2) = None"
    using assms(2) by (auto simp: drive_upload_result split: option.splits)
  note eq = upload_storage_failure_eq [OF assms(1) refl refl failed]
  have answer: "fst (upload J env (Some f) st) =
      Response 500 (Error ''Failed to upload to Google Drive'')"
    by (simp add: eq)
  have disk_after: "files (snd (upload J env (Some f) st)) =
      (if unlink_ok env then (files st)(?p := None) else files st)"
    by (simp add: eq unlink_logged_files emit_fields drive_upload_files extract_tags_fields)
  have calls: "trace (snd (upload J env (Some f) st)) = trace st @ ?pre @ Unlink ?p # ?tail"
    by (simp add: eq unlink_logged_trace emit_fields drive_upload_trace drive_upload_files
          extract_tags_trace extract_tags_fields)
  have quiet: "filter is_unlink ?pre = []"
    by (simp add: is_unlink_def split: option.splits)
  have logged: "ConsoleError ''Failed to delete temp file:''
      \<in> set (trace (snd (upload J env (Some f) st)))" if "\<not> unlink_ok env"
    unfolding calls using that by simp
  show ?thesis
    using answer disk_after calls quiet logged by blast
qed

text \<open>
  An instance: \<^verbatim>\<open>files.create\<close> rejects and the removal succeeds; and the same upload when
  the removal fails.
\<close>

theorem upload_storage_failure_witness:
  "fst (upload songs_json (outside\<lparr>files_create := None\<rparr>) (Some tok) disk) =
     Response 500 (Error ''Failed to upload to Google Drive'') \<and>
   files (snd (upload songs_json (outside\<lparr>files_create := None\<rparr>) (Some tok) disk))
     ''temp_uploads/tok.mp3'' = None \<and>
   files (snd (upload songs_json (outside\<lparr>files_create := None\<rparr>) (Some tok) disk))
     SONGS_FILE = Some ''S'' \<and>
   ConsoleError ''Failed to delete temp file:''
     \<in> set (trace (snd (upload songs_json (outside\<lparr>files_create := None, unlink_ok := False\<rparr>)
                            (Some tok) disk)))"
proof -
  let ?env = "outside\<lparr>files_create := None\<rparr>"
  let ?env' = "outside\<lparr>files_create := None, unlink_ok := False\<rparr>"
  have h1: "client_ok ?env" by (simp add: outside_def)
  have h2: "files_create ?env = None \<or> \<not> permissions_ok ?env" by simp
  have h1': "client_ok ?env'" by (simp add: outside_def)
  have h2': "files_create ?env' = None \<or> \<not> permissions_ok ?env'" by simp
  have removed: "files (snd (upload songs_json ?env (Some tok) disk)) =
      (files disk)(path_join UPLOAD_DIR (filename tok) := None)"
    using upload_storage_failure [OF h1 h2, of songs_json tok disk] by (simp add: outside_def)
  have logged: "ConsoleError ''Failed to delete temp file:''
      \<in> set (trace (snd (upload songs_json ?env' (Some tok) disk)))"
    using upload_storage_failure [OF h1' h2', of songs_json tok disk] by simp
  have answer: "fst (upload songs_json ?env (Some tok) disk) =
      Response 500 (Error ''Failed to upload to Google Drive'')"
    using upload_storage_failure [OF h1 h2, of songs_json tok disk] by blast
  have p: "path_join UPLOAD_DIR (filename tok) = ''temp_uploads/tok.mp3''"
    by (simp add: path_join_def UPLOAD_DIR_def tok_def)
  have gone: "files (snd (upload songs_json ?env (Some tok) disk)) ''temp_uploads/tok.mp3'' = None"
    unfolding removed p by simp
  have kept: "files (snd (upload songs_json ?env (Some tok) disk)) SONGS_FILE = Some ''S''"
    unfolding removed p by (simp add: disk_def SONGS_FILE_def PLAYLISTS_FILE_def)
  show ?thesis
    using answer gone kept logged by blast
qed

text \<open>
  C2 as stated asks that the staged file no longer exists after any failed upload. When
  \<^verbatim>\<open>files.create\<close> rejects and \<^verbatim>\<open>unlink\<close> rejects too, the answer is the same 500 and the
  staged file is still there.
\<close>

theorem upload_failed_unlink_leaves_staged_file:
  "fst (upload songs_json (outside\<lparr>files_create := None, unlink_ok := False\<rparr>) (Some tok) disk) =
     Response 500 (Error ''Failed to upload to Google Drive'') \<and>
   files (snd (upload songs_json (outside\<lparr>files_create := None, unlink_ok := False\<rparr>) (Some tok) disk))
     ''temp_uploads/tok.mp3'' = Some ''ID3...''"
proof -
  let ?env = "outside\<lparr>files_create := None, unlink_ok := False\<rparr>"
  have h1: "client_ok ?env" by (simp add: outside_def)
  have h2: "fst (drive_upload ?env tok (path_join UPLOAD_DIR (filename tok))
              (extract_tags ?env (path_join UPLOAD_DIR (filename tok)) (emit GetDriveClient disk))) = None"
    by (simp add: drive_upload_result)
  show ?thesis
    by (simp add: upload_storage_failure_eq [OF h1 refl refl h2] unlink_logged_files emit_fields
          drive_upload_files extract_tags_fields)
       (simp add: disk_def outside_def)
qed

section \<open>Removal of the staged file\<close>

lemma upload_cases:
  assumes "\<not> client_ok env \<Longrightarrow> P"
    and "client_ok env \<Longrightarrow>
         fst (drive_upload env f (path_join UPLOAD_DIR (filename f))
               (extract_tags env (path_join UPLOAD_DIR (filename f)) (emit GetDriveClient st))) = None \<Longrightarrow> P"
    and "\<And>fid. client_ok env \<Longrightarrow>
         fst (drive_upload env f (path_join UPLOAD_DIR (filename f))
               (extract_tags env (path_join UPLOAD_DIR (filename f)) (emit GetDriveClient st))) = Some fid \<Longrightarrow> P"
  shows P
  using assms by (cases "client_ok env") auto

lemma upload_trace_unlink:
  "\<exists>pre post.
     trace (snd (upload J env (Some f) st)) =
       trace st @ pre @ Unlink (path_join UPLOAD_DIR (filename f)) # post \<and>
     filter is_unlink pre = [] \<and> filter is_unlink post = [] \<and>
     filter is_storage_call post = []"
proof -
  let ?p = "path_join UPLOAD_DIR (filename f)"
  let ?tail = "if unlink_ok env \<and> files st ?p \<noteq> None then []
               else [ConsoleError ''Failed to delete temp file:'']"
  let ?st2 = "extract_tags env ?p (emit GetDriveClient st)"
  let ?st3 = "snd (drive_upload env f ?p ?st2)"
  let ?pre = "GetDriveClient # ParseFile ?p #
      (case parseFile env of None \<Rightarrow> [ConsoleError ''Metadata extraction failed:''] | Some md \<Rightarrow> []) @
      FilesCreate (filename f) #
      (case files_create env of None \<Rightarrow> [] | Some fid \<Rightarrow> [PermissionsCreate fid])"
  have st3: "trace ?st3 = trace st @ ?pre"
    by (simp add: drive_upload_trace extract_tags_trace emit_fields)
  have pre: "filter is_unlink ?pre = []"
    by (simp add: is_unlink_def split: option.splits)
  have files3: "files ?st3 = files st"
    by (simp add: drive_upload_files extract_tags_fields emit_fields)
  have tail: "filter is_unlink ?tail = []" "filter is_storage_call ?tail = []"
    by (simp_all add: is_unlink_def is_storage_call_def)
  show ?thesis
  proof (rule upload_cases [of env _ f st])
    assume "\<not> client_ok env"
    then have "trace (snd (upload J env (Some f) st)) =
        trace st @ [GetDriveClient, ConsoleError ''Failed to initialize Drive client:''] @
          Unlink ?p # ?tail"
      by (simp add: upload_client_failure unlink_logged_trace emit_fields)
    moreover have "filter is_unlink [GetDriveClient, ConsoleError ''Failed to initialize Drive client:''] = []"
      by (simp add: is_unlink_def)
    ultimately show ?thesis using tail by blast
  next
    assume ok: "client_ok env" and failed: "fst (drive_upload env f ?p ?st2) = None"
    have "trace (snd (upload J env (Some f) st)) =
        trace st @ (?pre @ [ConsoleError ''Drive upload failed:'']) @ Unlink ?p # ?tail"
      by (simp add: upload_storage_failure_eq [OF ok refl refl failed] unlink_logged_trace
            emit_fields st3 files3)
    moreover have "filter is_unlink (?pre @ [ConsoleError ''Drive upload failed:'']) = []"
      using pre by (simp add: is_unlink_def)
    ultimately show ?thesis using tail by blast
  next
    fix fid
    assume ok: "client_ok env" and stored: "fst (drive_upload env f ?p ?st2) = Some fid"
    let ?st4 = "unlink_logged (unlink_ok env) ?p ?st3"
    let ?r = "enrich env (basic_title (parseFile env) f) (basic_artist (parseFile env))
               (basic_genre (parseFile env)) ?st4"
    note eq = upload_success_eq [OF ok refl refl stored refl refl refl]
    obtain e1 where e1: "trace (snd ?r) = trace ?st4 @ e1" "filter is_unlink e1 = []"
        "filter is_storage_call e1 = []"
      using enrich_quiet by blast
    obtain e2 where e2: "trace (snd (upload J env (Some f) st)) = trace (snd ?r) @ e2"
        "filter is_unlink e2 = []" "filter is_storage_call e2 = []"
      unfolding eq snd_conv using save_song_quiet by blast
    have "trace ?st4 = trace st @ ?pre @ Unlink ?p # ?tail"
      by (simp add: unlink_logged_trace st3 files3)
    then have "trace (snd (upload J env (Some f) st)) =
        trace st @ ?pre @ Unlink ?p # (?tail @ e1 @ e2)"
      using e1 e2 by simp
    moreover have "filter is_unlink (?tail @ e1 @ e2) = []"
      "filter is_storage_call (?tail @ e1 @ e2) = []"
      using e1 e2 by (simp_all add: is_unlink_def is_storage_call_def)
    ultimately show ?thesis using pre by blast
  qed
qed

lemma upload_staged_file:
  "files (snd (upload J env (Some f) st)) (path_join UPLOAD_DIR (filename f)) =
     (if unlink_ok env then None else files st (path_join UPLOAD_DIR (filename f)))"
proof -
  let ?p = "path_join UPLOAD_DIR (filename f)"
  let ?st2 = "extract_tags env ?p (emit GetDriveClient st)"
  show ?thesis
  proof (rule upload_cases [of env _ f st])
    assume "\<not> client_ok env"
    then show ?thesis
      by (simp add: upload_client_failure unlink_logged_files emit_fields)
  next
    assume ok: "client_ok env" and failed: "fst (drive_upload env f ?p ?st2) = None"
    show ?thesis
      by (simp add: upload_storage_failure_eq [OF ok refl refl failed] unlink_logged_files
            emit_fields drive_upload_files extract_tags_fields)
  next
    fix fid
    assume ok: "client_ok env" and stored: "fst (drive_upload env f ?p ?st2) = Some fid"
    show ?thesis
      by (simp add: upload_success_eq [OF ok refl refl stored refl refl refl]
            save_song_files(2) [OF staged_path_not_catalog] enrich_files unlink_logged_files
            drive_upload_files extract_tags_fields emit_fields)
  qed
qed

lemma enrich_ignores_unlink_ok:
  "fst (enrich (env\<lparr>unlink_ok := b\<rparr>) t a g st) = fst (enrich env t a g st')"
proof -
  have "fst (enrich (env\<lparr>unlink_ok := b\<rparr>) t a g st) = fst (enrich env t a g st)"
    by (simp add: enrich_def musicbrainz_def lrclib_def Let_def case_prod_beta
          split: option.splits list.splits lrc_answer.splits)
  then show ?thesis using enrich_value [of env t a g st st'] by simp
qed

lemma upload_response_ignores_unlink:
  "fst (upload J (env\<lparr>unlink_ok := b\<rparr>) (Some f) st) = fst (upload J env (Some f) st)"
proof -
  let ?p = "path_join UPLOAD_DIR (filename f)"
  let ?env = "env\<lparr>unlink_ok := b\<rparr>"
  let ?st2 = "extract_tags env ?p (emit GetDriveClient st)"
  let ?st2' = "extract_tags ?env ?p (emit GetDriveClient st)"
  have same: "fst (drive_upload ?env f ?p ?st2') = fst (drive_upload env f ?p ?st2)"
    by (simp add: drive_upload_result split: option.splits)
  show ?thesis
  proof (rule upload_cases [of env _ f st])
    assume "\<not> client_ok env"
    then show ?thesis by (simp add: upload_client_failure)
  next
    assume ok: "client_ok env" and failed: "fst (drive_upload env f ?p ?st2) = None"
    have ok': "client_ok ?env" using ok by simp
    have failed': "fst (drive_upload ?env f ?p ?st2') = None" using same failed by simp
    show ?thesis
      by (simp add: upload_storage_failure_eq [OF ok refl refl failed]
            upload_storage_failure_eq [OF ok' refl refl failed'])
  next
    fix fid
    assume ok: "client_ok env" and stored: "fst (drive_upload env f ?p ?st2) = Some fid"
    have ok': "client_ok ?env" using ok by simp
    have stored': "fst (drive_upload ?env f ?p ?st2') = Some fid" using same stored by simp
    show ?thesis
      by (simp add: upload_success_eq [OF ok refl refl stored refl refl refl]
            upload_success_eq [OF ok' refl refl stored' refl refl refl])
         (simp add: enrich_ignores_unlink_ok
            [where st' = "unlink_logged (unlink_ok env) ?p (snd (drive_upload env f ?p ?st2))"])
  qed
qed

text \<open>
  C5. Once a file part is present, every run of the upload handler calls \<^verbatim>\<open>unlink\<close> on the
  staged file exactly once and calls it on no other file; nothing is sent to the remote
  storage after that call, so the removal comes after the upload attempt on the paths
  that make one. When the removal succeeds the staged file is gone at the end; when it
  fails the file is left as it was, the failure is written to the error log, and the
  answer to the caller is the same as if it had succeeded.
\<close>

theorem upload_unlinks_staged_file:
  "(\<exists>pre post.
      trace (snd (upload J env (Some f) st)) =
        trace st @ pre @ Unlink (path_join UPLOAD_DIR (filename f)) # post \<and>
      filter is_unlink pre = [] \<and> filter is_unlink post = [] \<and>
      filter is_storage_call post = []) \<and>
   files (snd (upload J env (Some f) st)) (path_join UPLOAD_DIR (filename f)) =
     (if unlink_ok env then None else files st (path_join UPLOAD_DIR (filename f))) \<and>
   (\<not> unlink_ok env \<longrightarrow>
      ConsoleError ''Failed to delete temp file:'' \<in> set (trace (snd (upload J env (Some f) st)))) \<and>
   fst (upload J (env\<lparr>unlink_ok := b\<rparr>) (Some f) st) = fst (upload J env (Some f) st)"
proof -
  let ?p = "path_join UPLOAD_DIR (filename f)"
  let ?st2 = "extract_tags env ?p (emit GetDriveClient st)"
  have logged: "ConsoleError ''Failed to delete temp file:'' \<in> set (trace (snd (upload J env (Some f) st)))"
    if fails: "\<not> unlink_ok env"
  proof (rule upload_cases [of env _ f st])
    assume "\<not> client_ok env"
    then show ?thesis
      using fails by (simp add: upload_client_failure unlink_logged_trace)
  next
    assume ok: "client_ok env" and failed: "fst (drive_upload env f ?p ?st2) = None"
    show ?thesis
      using fails
      by (simp add: upload_storage_failure_eq [OF ok refl refl failed] unlink_logged_trace)
  next
    fix fid
    assume ok: "client_ok env" and stored: "fst (drive_upload env f ?p ?st2) = Some fid"
    let ?st4 = "unlink_logged (unlink_ok env) ?p (snd (drive_upload env f ?p ?st2))"
    let ?r = "enrich env (basic_title (parseFile env) f) (basic_artist (parseFile env))
               (basic_genre (parseFile env)) ?st4"
    note eq = upload_success_eq [OF ok refl refl stored refl refl refl]
    obtain e1 where e1: "trace (snd ?r) = trace ?st4 @ e1"
      using enrich_quiet by blast
    obtain e2 where e2: "trace (snd (upload J env (Some f) st)) = trace (snd ?r) @ e2"
      unfolding eq snd_conv using save_song_quiet by blast
    have "ConsoleError ''Failed to delete temp file:'' \<in> set (trace ?st4)"
      using fails by (simp add: unlink_logged_trace)
    then show ?thesis
      unfolding e2 e1 by simp
  qed
  show ?thesis
    using upload_trace_unlink [of J env f st] upload_staged_file [of J env f st]
      upload_response_ignores_unlink [where J = J and env = env and b = b and f = f and st = st]
      logged
    by blast
qed

text \<open>An instance: an upload whose removal fails, beside the same upload where it succeeds.\<close>

theorem upload_unlinks_staged_file_witness:
  "\<not> unlink_ok (outside\<lparr>unlink_ok := False\<rparr>) \<and>
   ConsoleError ''Failed to delete temp file:''
     \<in> set (trace (snd (upload songs_json (outside\<lparr>unlink_ok := False\<rparr>) (Some tok) disk))) \<and>
   files (snd (upload songs_json (outside\<lparr>unlink_ok := False\<rparr>) (Some tok) disk))
     ''temp_uploads/tok.mp3'' = Some ''ID3...'' \<and>
   files (snd (upload songs_json outside (Some tok) disk)) ''temp_uploads/tok.mp3'' = None"
proof -
  have h: "\<not> unlink_ok (outside\<lparr>unlink_ok := False\<rparr>)" by simp
  have p: "path_join UPLOAD_DIR (filename tok) = ''temp_uploads/tok.mp3''"
    by (simp add: path_join_def UPLOAD_DIR_def tok_def)
  have u: "unlink_ok outside" by (simp add: outside_def)
  have d: "files disk ''temp_uploads/tok.mp3'' = Some ''ID3...''"
    by (simp add: disk_def SONGS_FILE_def PLAYLISTS_FILE_def)
  from upload_unlinks_staged_file [of songs_json "outside\<lparr>unlink_ok := False\<rparr>" tok disk]
    upload_unlinks_staged_file [of songs_json outside tok disk] h
  show ?thesis
    by (simp add: p u d)
qed

section \<open>Streaming proxy: the look-up failures\<close>

lemma stream_not_found_eq:
  assumes "find (\<lambda>s. song_id s = req_id) (fst (readJSON (JSON_parse J) SONGS_FILE st)) = None"
  shows "stream J env req_id st =
    (Response 404 (Error ''Song not found''),
     emit (ConsoleError (''Song not found for ID: '' @ req_id))
       (snd (readJSON (JSON_parse J) SONGS_FILE st)))"
  using assms by (simp add: stream_def case_prod_beta)

lemma stream_no_handle_eq:
  assumes "find (\<lambda>s. song_id s = req_id) (fst (readJSON (JSON_parse J) SONGS_FILE st)) = Some s"
    and "falsy (driveFileId s)"
  shows "stream J env req_id st =
    (Response 404 (Error ''Audio file not found''),
     emit (ConsoleErrorAbout ''No Drive file ID for song: '' (title s))
       (snd (readJSON (JSON_parse J) SONGS_FILE st)))"
  using assms by (simp add: stream_def case_prod_beta truthy_def)

lemma found_readable:
  assumes "find P (fst (readJSON parse_text file st)) = Some s"
  shows "readable parse_text st file"
proof (rule ccontr)
  assume "\<not> readable parse_text st file"
  then have "fst (readJSON parse_text file st) = []" by (rule readJSON_unreadable)
  with assms show False by simp
qed

text \<open>
  C6, as amended. A stream request for an id that no song carries is answered 404
  "Song not found"; one for a song whose remote-storage handle is absent or empty is
  answered 404 "Audio file not found". In both cases no remote object is touched and the
  only file that can be written is the songs file, by the read itself: it is left as it
  is when it holds a parseable collection (always so when the song was found), and it is
  rewritten as the empty collection when it was absent, blank or unparseable.
\<close>

theorem stream_lookup_failures:
  assumes "find (\<lambda>s. song_id s = req_id) (fst (readJSON (JSON_parse J) SONGS_FILE st)) = found"
    and "found = None \<or> (\<exists>s. found = Some s \<and> falsy (driveFileId s))"
  shows "fst (stream J env req_id st) =
           Response 404 (Error (if found = None then ''Song not found'' else ''Audio file not found'')) \<and>
         drive (snd (stream J env req_id st)) = drive st \<and>
         files (snd (stream J env req_id st)) =
           (if readable (JSON_parse J) st SONGS_FILE then files st
            else (files st)(SONGS_FILE \<mapsto> ''[]'')) \<and>
         (found \<noteq> None \<longrightarrow> files (snd (stream J env req_id st)) = files st)"
proof (cases found)
  case None
  then show ?thesis
    using assms(1) by (simp add: stream_not_found_eq emit_fields readJSON_files readJSON_drive)
next
  case (Some s)
  then have handle: "falsy (driveFileId s)" using assms(2) by simp
  have found: "find (\<lambda>s. song_id s = req_id) (fst (readJSON (JSON_parse J) SONGS_FILE st)) = Some s"
    using assms(1) Some by simp
  have "readable (JSON_parse J) st SONGS_FILE"
    using found by (rule found_readable)
  then show ?thesis
    using Some by (simp add: stream_no_handle_eq [OF found handle] emit_fields readJSON_files
        readJSON_drive)
qed

text \<open>An instance: a song stored without a handle, and an id that no song carries.\<close>

theorem stream_lookup_failures_witness:
  "fst (stream songs_json stream_outside ''s2'' disk) = Response 404 (Error ''Audio file not found'') \<and>
   files (snd (stream songs_json stream_outside ''s2'' disk)) = files disk \<and>
   fst (stream songs_json stream_outside ''s9'' disk) = Response 404 (Error ''Song not found'')"
proof -
  have h1: "find (\<lambda>s. song_id s = ''s2'') (fst (readJSON (JSON_parse songs_json) SONGS_FILE disk)) =
      Some red_moon"
    by (simp add: disk_songs blue_skies_def red_moon_def)
  have h2: "Some red_moon = None \<or> (\<exists>s. Some red_moon = Some s \<and> falsy (driveFileId s))"
    by (simp add: red_moon_def falsy_def)
  have h3: "find (\<lambda>s. song_id s = ''s9'') (fst (readJSON (JSON_parse songs_json) SONGS_FILE disk)) =
      None"
    by (simp add: disk_songs blue_skies_def red_moon_def)
  have h4: "None = None \<or> (\<exists>s. None = Some s \<and> falsy (driveFileId s))" by simp
  have r: "readable (JSON_parse songs_json) disk SONGS_FILE"
    using h1 by (rule found_readable)
  from stream_lookup_failures [OF h1 h2, of stream_outside]
    stream_lookup_failures [OF h3 h4, of stream_outside]
  show ?thesis by (simp add: r)
qed

text \<open>
  C6 as stated asks that no state is mutated. On a disk without a songs file, the
  request for an unknown id is answered 404 and the songs file exists afterwards.
\<close>

theorem stream_song_not_found_writes_file:
  "fst (stream songs_json stream_outside ''s9'' empty_disk) = Response 404 (Error ''Song not found'') \<and>
   files empty_disk SONGS_FILE = None \<and>
   files (snd (stream songs_json stream_outside ''s9'' empty_disk)) SONGS_FILE = Some ''[]''"
proof -
  have r: "readJSON (JSON_parse songs_json) SONGS_FILE empty_disk =
      ([], writeFileSync SONGS_FILE ''[]'' empty_disk)"
    by (simp add: readJSON_def empty_disk_def)
  have "find (\<lambda>s. song_id s = ''s9'') (fst (readJSON (JSON_parse songs_json) SONGS_FILE empty_disk)) = None"
    by (simp add: r)
  then show ?thesis
    by (simp add: stream_not_found_eq r emit_fields writeFileSync_fields) (simp add: empty_disk_def)
qed

section \<open>Defaults of the new record\<close>

lemma indexOf_bound: "indexOf s q = Some i \<Longrightarrow> i + length q \<le> length s"
proof (induction s arbitrary: i)
  case Nil
  then show ?case by (simp split: if_splits)
next
  case (Cons c cs)
  show ?case
  proof (cases "startsWith (c # cs) q")
    case True
    then have "length (take (length q) (c # cs)) = length q"
      unfolding startsWith_def by simp
    then have "length q \<le> length (c # cs)"
      by simp
    with True Cons.prems show ?thesis by simp
  next
    case False
    with Cons.prems obtain j where "indexOf cs q = Some j" and "i = Suc j" by auto
    with Cons.IH show ?thesis by fastforce
  qed
qed

lemma indexOf_empty: "indexOf s [] = Some 0"
  by (cases s) (simp_all add: startsWith_def)

lemma replace_suffix:
  assumes "extname n = [] \<or> indexOf n (extname n) = Some (length n - length (extname n))"
  shows "replace_str n (extname n) [] = strip_extension n"
proof (cases "extname n = []")
  case True
  then show ?thesis by (simp add: replace_str_def strip_extension_def indexOf_empty)
next
  case False
  with assms have at: "indexOf n (extname n) = Some (length n - length (extname n))" by simp
  from indexOf_bound [OF at] have "length n \<le> length n - length (extname n) + length (extname n)"
    by simp
  then show ?thesis
    by (simp add: replace_str_def strip_extension_def at)
qed

lemma musicbrainz_genre:
  "snd (fst (musicbrainz env t a g st)) = (case reported_genre env of None \<Rightarrow> g | Some x \<Rightarrow> Some x)"
  by (simp add: musicbrainz_def reported_genre_def Let_def split: option.splits list.splits)

lemma enrich_genre:
  "snd (snd (fst (enrich env t a g st))) =
     (if t \<noteq> [] \<and> a \<noteq> ustr ''Unknown'' then (case reported_genre env of None \<Rightarrow> g | Some x \<Rightarrow> Some x)
      else g)"
  by (simp add: enrich_def Let_def case_prod_beta musicbrainz_genre)

lemma upload_song:
  assumes "fst (upload J env (Some f) st) = Response 200 (SongJ s)"
  shows "title s = basic_title (parseFile env) f \<and>
         artist s = basic_artist (parseFile env) \<and>
         album s = basic_album (parseFile env) \<and>
         duration s = basic_duration (parseFile env) \<and>
         genre s =
           (if basic_title (parseFile env) f \<noteq> [] \<and> basic_artist (parseFile env) \<noteq> ustr ''Unknown''
            then (case reported_genre env of
                    None \<Rightarrow> basic_genre (parseFile env) | Some x \<Rightarrow> Some x)
            else basic_genre (parseFile env))"
proof -
  let ?p = "path_join UPLOAD_DIR (filename f)"
  let ?st2 = "extract_tags env ?p (emit GetDriveClient st)"
  show ?thesis
  proof (rule upload_cases [of env _ f st])
    assume "\<not> client_ok env"
    then show ?thesis using assms by (simp add: upload_client_failure)
  next
    assume ok: "client_ok env" and failed: "fst (drive_upload env f ?p ?st2) = None"
    show ?thesis
      using assms by (simp add: upload_storage_failure_eq [OF ok refl refl failed])
  next
    fix fid
    assume ok: "client_ok env" and stored: "fst (drive_upload env f ?p ?st2) = Some fid"
    from assms have "s = \<lparr>song_id = uuid env, title = basic_title (parseFile env) f,
           artist = basic_artist (parseFile env), album = basic_album (parseFile env),
           genre = snd (snd (fst (enrich env (basic_title (parseFile env) f)
                     (basic_artist (parseFile env)) (basic_genre (parseFile env))
                     (unlink_logged (unlink_ok env) ?p (snd (drive_upload env f ?p ?st2)))))),
           duration = basic_duration (parseFile env),
           albumArt = fst (fst (enrich env (basic_title (parseFile env) f)
                     (basic_artist (parseFile env)) (basic_genre (parseFile env))
                     (unlink_logged (unlink_ok env) ?p (snd (drive_upload env f ?p ?st2))))),
           lyrics = fst (snd (fst (enrich env (basic_title (parseFile env) f)
                     (basic_artist (parseFile env)) (basic_genre (parseFile env))
                     (unlink_logged (unlink_ok env) ?p (snd (drive_upload env f ?p ?st2)))))),
           driveFileId = Some fid, createdAt = now env\<rparr>"
      by (simp add: upload_success_eq [OF ok refl refl stored refl refl refl])
    then show ?thesis
      by (simp add: enrich_genre)
  qed
qed

text \<open>
  C4, as amended. Let an upload end with a new Song. A tag title that is missing or
  empty makes the title the original file name with its extension stripped, for names
  in which the extension's text does not occur before the end. A missing or empty artist
  or album tag makes the field "Unknown", and a missing duration makes it 0. A missing
  genre tag makes the genre "Unknown", unless the enrichment step, which runs only when
  the title is not empty and the artist is not "Unknown", finds a genre reported by the
  external index: that genre is then the Song's. In particular, when the tag extraction
  fails as a whole, artist, album and genre are "Unknown" and the duration is 0.
\<close>

theorem upload_defaults:
  assumes "fst (upload J env (Some f) st) = Response 200 (SongJ s)"
  shows "(falsy (tag_title (common_of (parseFile env))) \<and>
            (extname (originalname f) = [] \<or>
             indexOf (originalname f) (extname (originalname f)) =
               Some (length (originalname f) - length (extname (originalname f)))) \<longrightarrow>
            title s = strip_extension (originalname f)) \<and>
         (falsy (tag_artist (common_of (parseFile env))) \<longrightarrow> artist s = ustr ''Unknown'') \<and>
         (falsy (tag_album (common_of (parseFile env))) \<longrightarrow> album s = ustr ''Unknown'') \<and>
         (tag_genre (common_of (parseFile env)) = None \<longrightarrow>
            genre s =
              (if title s \<noteq> [] \<and> artist s \<noteq> ustr ''Unknown''
               then (case reported_genre env of None \<Rightarrow> Some (ustr ''Unknown'') | Some x \<Rightarrow> Some x)
               else Some (ustr ''Unknown''))) \<and>
         (parseFile env = None \<or> (\<exists>md. parseFile env = Some md \<and> format_duration md = None) \<longrightarrow>
            duration s = 0) \<and>
         (parseFile env = None \<longrightarrow>
            artist s = ustr ''Unknown'' \<and> album s = ustr ''Unknown'' \<and> genre s = Some (ustr ''Unknown'') \<and>
            duration s = 0)"
proof -
  note song = upload_song [OF assms]
  have t: "falsy (tag_title (common_of (parseFile env))) \<Longrightarrow>
      title s = replace_str (originalname f) (extname (originalname f)) []"
    using song by (auto simp: basic_title_def or_else_def falsy_def split: option.splits)
  have a: "falsy (tag_artist (common_of (parseFile env))) \<Longrightarrow> artist s = ustr ''Unknown''"
    using song by (auto simp: basic_artist_def or_else_def falsy_def split: option.splits)
  have al: "falsy (tag_album (common_of (parseFile env))) \<Longrightarrow> album s = ustr ''Unknown''"
    using song by (auto simp: basic_album_def or_else_def falsy_def split: option.splits)
  have g: "tag_genre (common_of (parseFile env)) = None \<Longrightarrow>
      genre s = (if title s \<noteq> [] \<and> artist s \<noteq> ustr ''Unknown''
                 then (case reported_genre env of None \<Rightarrow> Some (ustr ''Unknown'') | Some x \<Rightarrow> Some x)
                 else Some (ustr ''Unknown''))"
    using song by (auto simp: basic_genre_def split: option.splits)
  have d: "parseFile env = None \<or> (\<exists>md. parseFile env = Some md \<and> format_duration md = None) \<Longrightarrow>
      duration s = 0"
    using song by (auto simp: basic_duration_def)
  have none: "parseFile env = None \<Longrightarrow>
      artist s = ustr ''Unknown'' \<and> album s = ustr ''Unknown'' \<and> genre s = Some (ustr ''Unknown'') \<and> duration s = 0"
    using song
    by (simp add: basic_artist_def basic_album_def basic_genre_def basic_duration_def
          common_of_def no_tags_def or_else_def)
  have t': "title s = strip_extension (originalname f)"
    if "falsy (tag_title (common_of (parseFile env)))"
      and "extname (originalname f) = [] \<or>
           indexOf (originalname f) (extname (originalname f)) =
             Some (length (originalname f) - length (extname (originalname f)))"
    using t [OF that(1)] replace_suffix [OF that(2)] by simp
  show ?thesis
    using t' a al g d none by blast
qed

lemma upload_success_response:
  assumes "client_ok env"
    and "files_create env = Some fid" and "permissions_ok env"
    and "r = fst (enrich env (basic_title (parseFile env) f) (basic_artist (parseFile env))
               (basic_genre (parseFile env)) st')"
  shows "fst (upload J env (Some f) st) =
    Response 200 (SongJ \<lparr>song_id = uuid env, title = basic_title (parseFile env) f,
           artist = basic_artist (parseFile env), album = basic_album (parseFile env),
           genre = snd (snd r), duration = basic_duration (parseFile env),
           albumArt = fst r, lyrics = fst (snd r),
           driveFileId = Some fid, createdAt = now env\<rparr>)"
proof -
  let ?p = "path_join UPLOAD_DIR (filename f)"
  let ?st2 = "extract_tags env ?p (emit GetDriveClient st)"
  have stored: "fst (drive_upload env f ?p ?st2) = Some fid"
    using assms(2,3) by (simp add: drive_upload_result)
  let ?st4 = "unlink_logged (unlink_ok env) ?p (snd (drive_upload env f ?p ?st2))"
  have e: "fst (enrich env (basic_title (parseFile env) f) (basic_artist (parseFile env))
               (basic_genre (parseFile env)) ?st4) = r"
    unfolding assms(4) by (rule enrich_value)
  show ?thesis
    by (simp add: upload_success_eq [OF assms(1) refl refl stored refl refl refl] e)
qed

lemma extname_song: "extname (ustr ''song.mp3'') = ustr ''.mp3''"
  by code_simp

lemma title_of_song: "replace_str (ustr ''song.mp3'') (ustr ''.mp3'') [] = ustr ''song''"
  by code_simp

text \<open>An instance: the tag extraction fails on the upload of \<^verbatim>\<open>song.mp3\<close>.\<close>

theorem upload_defaults_witness:
  "fst (upload songs_json (outside\<lparr>parseFile := None\<rparr>) (Some tok) disk) =
     Response 200 (SongJ \<lparr>song_id = ''s3'', title = ustr ''song'', artist = ustr ''Unknown'',
       album = ustr ''Unknown'', genre = Some (ustr ''Unknown''), duration = 0, albumArt = None,
       lyrics = None, driveFileId = Some ''d9'', createdAt = ''2024-01-03T00:00:00.000Z''\<rparr>) \<and>
   parseFile (outside\<lparr>parseFile := None\<rparr>) = None \<and>
   indexOf (originalname tok) (extname (originalname tok)) =
     Some (length (originalname tok) - length (extname (originalname tok))) \<and>
   strip_extension (originalname tok) = ustr ''song''"
proof -
  let ?env = "outside\<lparr>parseFile := None\<rparr>"
  let ?s = "\<lparr>song_id = ''s3'', title = ustr ''song'', artist = ustr ''Unknown'',
       album = ustr ''Unknown'', genre = Some (ustr ''Unknown''), duration = 0, albumArt = None,
       lyrics = None, driveFileId = Some ''d9'', createdAt = ''2024-01-03T00:00:00.000Z''\<rparr>"
  have t: "basic_title None tok = ustr ''song''"
    by (simp add: basic_title_def common_of_def no_tags_def or_else_def tok_def extname_song
          title_of_song)
  have h: "fst (upload songs_json ?env (Some tok) disk) = Response 200 (SongJ ?s)"
    by (simp add: upload_success_response [where fid = "''d9''" and st' = disk]
          outside_def t basic_artist_def basic_album_def basic_genre_def basic_duration_def
          common_of_def no_tags_def or_else_def enrich_def)
  have i: "indexOf (originalname tok) (extname (originalname tok)) =
     Some (length (originalname tok) - length (extname (originalname tok)))"
    unfolding tok_def by code_simp
  have "falsy (tag_title (common_of (parseFile ?env)))"
    by (simp add: common_of_def no_tags_def falsy_def)
  with upload_defaults [OF h] i have "title ?s = strip_extension (originalname tok)"
    by blast
  with h i show ?thesis by simp
qed

text \<open>
  C4 as stated asks that a missing genre leaves the Song's genre "Unknown". Here the tags
  give a title and an artist but no genre, and the Song ends with the genre the look-up
  reports.
\<close>

theorem upload_genre_overridden_by_lookup:
  "tag_genre (common_of (parseFile outside)) = None \<and>
   fst (upload songs_json outside (Some tok) disk) =
     Response 200 (SongJ \<lparr>song_id = ''s3'', title = ustr ''Blue Skies'', artist = ustr ''Ana'',
       album = ustr ''Unknown'', genre = Some (ustr ''jazz''), duration = 0,
       albumArt = Some ''https://coverartarchive.org/release/rel1/front-500'',
       lyrics = None, driveFileId = Some ''d9'', createdAt = ''2024-01-03T00:00:00.000Z''\<rparr>)"
proof -
  have tags: "common_of (parseFile outside) =
      \<lparr>tag_title = Some (ustr ''Blue Skies''), tag_artist = Some (ustr ''Ana''), tag_album = None, tag_genre = None\<rparr>"
    by (simp add: outside_def tagged_def common_of_def)
  have e: "fst (enrich outside (ustr ''Blue Skies'') (ustr ''Ana'') (Some (ustr ''Unknown'')) disk) =
      (Some ''https://coverartarchive.org/release/rel1/front-500'', None, Some (ustr ''jazz''))"
    by (simp add: enrich_def musicbrainz_def lrclib_def Let_def outside_def ustr_def)
  have ok: "client_ok outside" "files_create outside = Some ''d9''" "permissions_ok outside"
    "uuid outside = ''s3''" "now outside = ''2024-01-03T00:00:00.000Z''"
    "basic_duration (parseFile outside) = 0"
    by (simp_all add: outside_def tagged_def basic_duration_def)
  have given: "ustr ''Blue Skies'' \<noteq> []" "ustr ''Ana'' \<noteq> []"
    by (simp_all add: ustr_def)
  show ?thesis
    by (simp add: upload_success_response [OF ok(1,2,3) refl, where st' = disk] tags ok
          basic_title_def basic_artist_def basic_album_def basic_genre_def or_else_def e given)
qed

text \<open>
  The title default replaces the first occurrence of the extension's text, which is not
  always the extension: for the file name \<^verbatim>\<open>a.mp3b.mp3\<close> it yields \<^verbatim>\<open>ab.mp3\<close>, where
  stripping the extension gives \<^verbatim>\<open>a.mp3b\<close>.
\<close>

lemma basic_title_first_occurrence:
  "basic_title None \<lparr>filename = ''tok.mp3'', originalname = ustr ''a.mp3b.mp3'', mimetype = ''audio/mpeg''\<rparr>
     = ustr ''ab.mp3'' \<and>
   strip_extension (ustr ''a.mp3b.mp3'') = ustr ''a.mp3b''"
  by code_simp

section \<open>Adding a song to a playlist\<close>

lemma load_songs_values: "map snd (load_songs n ss) = ss"
  by (simp add: load_songs_def)

lemma load_songs_refs: "(r, s) \<in> set (load_songs n ss) \<Longrightarrow> n \<le> r"
  by (auto simp: load_songs_def dest: set_zip_leftD)

lemma load_playlists_free: "n \<le> snd (load_playlists n ps)"
proof (induction ps arbitrary: n)
  case Nil
  then show ?case by simp
next
  case (Cons p ps)
  have "Suc n + length (songs p) \<le> snd (load_playlists (Suc n + length (songs p)) ps)"
    by (rule Cons.IH)
  then show ?case by (simp add: case_prod_beta)
qed

lemma load_playlists_refs:
  "pm \<in> set (fst (load_playlists n ps)) \<Longrightarrow> (r, s) \<in> set (mem_songs pm) \<Longrightarrow>
     r < snd (load_playlists n ps)"
proof (induction ps arbitrary: n)
  case Nil
  then show ?case by simp
next
  case (Cons p ps)
  let ?m = "Suc n + length (songs p)"
  have free: "?m \<le> snd (load_playlists ?m ps)" by (rule load_playlists_free)
  from Cons.prems(1) consider
      "pm = \<lparr>mem_ref = n, mem_id = playlist_id p, mem_name = name p,
              mem_songs = load_songs (Suc n) (songs p)\<rparr>"
    | "pm \<in> set (fst (load_playlists ?m ps))"
    by (auto simp: case_prod_beta)
  then show ?case
  proof cases
    case 1
    with Cons.prems(2) have "r \<in> set [Suc n ..< Suc n + length (songs p)]"
      by (auto simp: load_songs_def dest: set_zip_leftD)
    then have "r < ?m" by auto
    with free show ?thesis by (simp add: case_prod_beta)
  next
    case 2
    then have "r < snd (load_playlists ?m ps)" using Cons.prems(2) by (rule Cons.IH)
    then show ?thesis by (simp add: case_prod_beta)
  qed
qed

lemma load_playlists_unload: "map unload (fst (load_playlists n ps)) = ps"
  by (induction ps arbitrary: n) (simp_all add: case_prod_beta unload_def load_songs_values)

text \<open>
  An object built by the second \<^verbatim>\<open>JSON.parse\<close> of a request is never an element of an
  array built by the first: the identity check of the add-song handler cannot succeed.
\<close>

lemma includes_obj_fresh:
  assumes "pm \<in> set (fst (load_playlists 0 ps))"
    and "x \<in> set (load_songs (snd (load_playlists 0 ps)) ss)"
  shows "\<not> includes_obj (mem_songs pm) x"
proof
  assume "includes_obj (mem_songs pm) x"
  then obtain s where "(fst x, s) \<in> set (mem_songs pm)"
    by (auto simp: includes_obj_def)
  then have "fst x < snd (load_playlists 0 ps)"
    using assms(1) load_playlists_refs by blast
  moreover have "snd (load_playlists 0 ps) \<le> fst x"
    using assms(2) load_songs_refs [of "fst x" "snd x"] by simp
  ultimately show False by simp
qed

lemma find_zip_snd:
  "length rs = length ss \<Longrightarrow> find P ss = Some s \<Longrightarrow>
     \<exists>r. find (\<lambda>x. P (snd x)) (zip rs ss) = Some (r, s)"
  by (induction rs ss rule: list_induct2) auto

lemma find_load_songs:
  assumes "find P ss = Some s"
  shows "\<exists>r. find (\<lambda>x. P (snd x)) (load_songs n ss) = Some (r, s)"
  unfolding load_songs_def using assms by (intro find_zip_snd) simp_all

lemma add_song_always_appends:
  assumes pl_read: "readJSON (JSON_parse JP) PLAYLISTS_FILE st = (before @ p # after, st1)"
    and first: "playlist_id p = req_id" "list_all (\<lambda>q. playlist_id q \<noteq> req_id) before"
    and songs_read: "readJSON (JSON_parse J) SONGS_FILE st1 = (ss, st2)"
    and found: "find (\<lambda>s. Some (song_id s) = songId) ss = Some s"
  shows "add_song JP J req_id songId st =
    (Response 200 (PlaylistJ (p\<lparr>songs := songs p @ [s]\<rparr>)),
     writeJSON (JSON_stringify JP) PLAYLISTS_FILE
       (before @ p\<lparr>songs := songs p @ [s]\<rparr> # after) st2)"
proof -
  let ?ps = "before @ p # after"
  let ?pms = "fst (load_playlists 0 ?ps)"
  let ?free = "snd (load_playlists 0 ?ps)"
  have "map unload ?pms = before @ p # after" by (rule load_playlists_unload)
  then obtain b' pm a' where pms: "?pms = b' @ pm # a'"
    and b': "map unload b' = before" and pm: "unload pm = p" and a': "map unload a' = after"
    by (auto simp: map_eq_append_conv map_eq_Cons_conv)
  have id_pm: "mem_id pm = req_id"
    using pm first(1) by (auto simp: unload_def)
  have "\<forall>y\<in>set b'. mem_id y \<noteq> req_id"
  proof
    fix y assume "y \<in> set b'"
    then have "unload y \<in> set before" using b' by auto
    then have "playlist_id (unload y) \<noteq> req_id" using first(2) by (simp add: list_all_iff)
    then show "mem_id y \<noteq> req_id" by (simp add: unload_def)
  qed
  then have ex: "List.extract (\<lambda>p. mem_id p = req_id) ?pms = Some (b', pm, a')"
    using pms id_pm by (simp add: extract_Some_iff)
  obtain r where x: "find (\<lambda>x. Some (song_id (snd x)) = songId) (load_songs ?free ss) = Some (r, s)"
    using find_load_songs [OF found] by blast
  then have "(r, s) \<in> set (load_songs ?free ss)"
    by (auto simp: find_Some_iff)
  moreover have "pm \<in> set ?pms" using pms by simp
  ultimately have fresh: "\<not> includes_obj (mem_songs pm) (r, s)"
    using includes_obj_fresh by blast
  have p': "unload (pm\<lparr>mem_songs := mem_songs pm @ [(r, s)]\<rparr>) = p\<lparr>songs := songs p @ [s]\<rparr>"
    using pm by (auto simp: unload_def)
  show ?thesis
    by (simp add: add_song_def pl_read songs_read case_prod_beta ex x fresh p' b' a')
qed

lemma disk_playlists:
  "readJSON (JSON_parse playlists_json) PLAYLISTS_FILE disk = ([mix], disk)"
proof -
  have "trim ''P'' = ''P''" by (simp add: trim_def is_white_def)
  then show ?thesis
    by (simp add: readJSON_def disk_def playlists_json_def SONGS_FILE_def PLAYLISTS_FILE_def)
qed

text \<open>
  C1 does not hold of the code. The stored playlist \<open>mix\<close> holds the song with id \<open>s1\<close>
  once; adding that id again answers 200 with a playlist that holds the song twice, and
  the playlist written back to the backing file holds it twice as well.
\<close>

theorem add_song_stores_duplicate:
  "entries_with_id ''s1'' (songs mix) = 1 \<and>
   fst (add_song playlists_json songs_json ''p1'' (Some ''s1'') disk) =
     Response 200 (PlaylistJ \<lparr>playlist_id = ''p1'', name = ustr ''mix'',
                               songs = [blue_skies, blue_skies]\<rparr>) \<and>
   files (snd (add_song playlists_json songs_json ''p1'' (Some ''s1'') disk)) PLAYLISTS_FILE =
     Some (JSON_stringify playlists_json
             [\<lparr>playlist_id = ''p1'', name = ustr ''mix'', songs = [blue_skies, blue_skies]\<rparr>]) \<and>
   entries_with_id ''s1'' [blue_skies, blue_skies] = 2"
proof -
  have pl: "readJSON (JSON_parse playlists_json) PLAYLISTS_FILE disk = ([] @ mix # [], disk)"
    by (simp add: disk_playlists)
  have found: "find (\<lambda>s. Some (song_id s) = Some ''s1'') [blue_skies, red_moon] = Some blue_skies"
    by (simp add: blue_skies_def)
  have eq: "add_song playlists_json songs_json ''p1'' (Some ''s1'') disk =
    (Response 200 (PlaylistJ (mix\<lparr>songs := songs mix @ [blue_skies]\<rparr>)),
     writeJSON (JSON_stringify playlists_json) PLAYLISTS_FILE
       ([] @ mix\<lparr>songs := songs mix @ [blue_skies]\<rparr> # []) disk)"
    by (rule add_song_always_appends [OF pl _ _ disk_songs found]) (simp_all add: mix_def)
  show ?thesis
    by (simp add: eq writeJSON_fields entries_with_id_def) (simp add: mix_def blue_skies_def)
qed

end
